theory Spec2Isabelle
  imports Complex_Main "HOL-Library.Multiset" "HOL-Library.Char_ord" "HOL-Library.List_Lexorder"
    "HOL-Library.Product_Lexorder"
begin

section \<open>Strings and numbers of the platform\<close>

text \<open>
  JavaScript strings are modelled as character lists. Case mapping is the ASCII one
  (\<open>A\<close>..\<open>Z\<close> to \<open>a\<close>..\<open>z\<close>), which keeps the length of a string; white space is
  the ASCII white space; \<open>localeCompare\<close> is the lexicographic order on characters, so two
  strings compare equal only when they are the same string. Instants (\<open>Date.now()\<close>, the
  ISO strings of \<open>toISOString\<close>) are natural numbers of milliseconds: ISO strings of one
  format sort as the instants they denote.
\<close>

type_synonym error = string
type_synonym timestamp = nat

definition lowerChar :: "char \<Rightarrow> char" where
  \<comment> \<open>adding 32 to the code of an upper-case ASCII letter sets bit 5 of it\<close>
  "lowerChar c =
     (if CHR ''A'' \<le> c \<and> c \<le> CHR ''Z''
      then Char (digit0 c) (digit1 c) (digit2 c) (digit3 c) (digit4 c) True (digit6 c) (digit7 c)
      else c)"

definition toLowerCase :: "string \<Rightarrow> string" where
  "toLowerCase s = map lowerChar s"

fun startsWith :: "string \<Rightarrow> string \<Rightarrow> bool" where
  "startsWith s [] = True"
| "startsWith [] (q # qs) = False"
| "startsWith (c # cs) (q # qs) = (c = q \<and> startsWith cs qs)"

definition endsWith :: "string \<Rightarrow> string \<Rightarrow> bool" where
  "endsWith s q = startsWith (rev s) (rev q)"

fun indexOfFrom :: "string \<Rightarrow> string \<Rightarrow> nat \<Rightarrow> int" where
  "indexOfFrom [] q i = (if q = [] then int i else - 1)"
| "indexOfFrom (c # cs) q i = (if startsWith (c # cs) q then int i else indexOfFrom cs q (Suc i))"

definition indexOf :: "string \<Rightarrow> string \<Rightarrow> int" where
  "indexOf s q = indexOfFrom s q 0"

definition includesStr :: "string \<Rightarrow> string \<Rightarrow> bool" where
  "includesStr s q = (0 \<le> indexOf s q)"

definition isSpace :: "char \<Rightarrow> bool" where
  "isSpace c = (c = CHR '' '' \<or> c = CHR 0x09 \<or> c = CHR 0x0A \<or> c = CHR 0x0B \<or> c = CHR 0x0C \<or> c = CHR 0x0D)"

definition trim :: "string \<Rightarrow> string" where
  "trim s = rev (dropWhile isSpace (rev (dropWhile isSpace s)))"

text \<open>\<open>s.replace(/\s+/g, " ")\<close>: every maximal run of white space becomes one blank.\<close>

fun collapseFrom :: "bool \<Rightarrow> string \<Rightarrow> string" where
  "collapseFrom inRun [] = []"
| "collapseFrom inRun (c # cs) =
     (if isSpace c then (if inRun then collapseFrom True cs else CHR '' '' # collapseFrom True cs)
      else c # collapseFrom False cs)"

definition collapseWhitespace :: "string \<Rightarrow> string" where
  "collapseWhitespace s = collapseFrom False s"


text \<open>\<open>String(n)\<close> for a natural number, and \<open>padStart(width, "0")\<close>.\<close>

definition digitChar :: "nat \<Rightarrow> char" where
  "digitChar d =
     (if d = 0 then CHR ''0'' else if d = 1 then CHR ''1'' else if d = 2 then CHR ''2''
      else if d = 3 then CHR ''3'' else if d = 4 then CHR ''4'' else if d = 5 then CHR ''5''
      else if d = 6 then CHR ''6'' else if d = 7 then CHR ''7'' else if d = 8 then CHR ''8''
      else CHR ''9'')"

fun decimal :: "nat \<Rightarrow> string" where
  "decimal n = (if n < 10 then [digitChar n] else decimal (n div 10) @ [digitChar (n mod 10)])"

declare decimal.simps [simp del]

definition padStart :: "nat \<Rightarrow> char \<Rightarrow> string \<Rightarrow> string" where
  "padStart width c s = replicate (width - length s) c @ s"

text \<open>
  A JavaScript number: \<open>NaN\<close>, an infinity, or a finite value (a rational number). A value
  of type \<open>unknown\<close> or an optional number is a \<open>JsNumber option\<close>, \<open>None\<close> when it is
  absent or not a number.
\<close>

datatype JsNumber = NaN | PosInfinity | NegInfinity | Finite rat

text \<open>\<open>Math.max(1, Math.min(maxValue, Math.floor(value)))\<close> for a value that is not NaN.\<close>

fun clampFloor :: "int \<Rightarrow> JsNumber \<Rightarrow> int" where
  "clampFloor maxValue (Finite r) = max 1 (min maxValue \<lfloor>r\<rfloor>)"
| "clampFloor maxValue PosInfinity = max 1 maxValue"
| "clampFloor maxValue NegInfinity = 1"
| "clampFloor maxValue NaN = 1"

section \<open>URLs and Markdown text\<close>

text \<open>
  The WHATWG \<open>URL\<close> class belongs to the platform. It is a parameter of the model: the
  parser of \<open>new URL(s)\<close> (\<open>None\<close> where the constructor throws), the resolver of
  \<open>new URL(rel, base)\<close>, and the serialiser \<open>toString()\<close>. Assigning \<open>parsed.hash = ""\<close>
  is a record update.
\<close>

record URL =
  url_protocol :: string
  url_hostname :: string
  url_pathname :: string
  url_search :: string
  url_hash :: string

record UrlApi =
  parseUrl :: "string \<Rightarrow> URL option"
  resolveUrl :: "string \<Rightarrow> string \<Rightarrow> URL option"
  hrefOf :: "URL \<Rightarrow> string"

record PreloadItem =
  item_path :: string
  item_url :: string
  item_docsetType :: string
  item_content :: string

record PreloadDocSummary =
  doc_id :: string
  doc_path :: string
  doc_url :: string
  doc_docsetType :: string
  doc_title :: string
  doc_description :: string
  doc_contentFile :: string
  doc_indexFile :: string

record PreloadLinkIndexEntry =
  link_title :: string
  link_url :: string
  link_description :: string
  link_localDocId :: "string option"

record PreloadDocHeading =
  heading_level :: nat
  heading_text :: string

record PreloadSuggestedDoc =
  sug_docId :: string
  sug_title :: string
  sug_path :: string
  sug_url :: string
  sug_contentFile :: string
  sug_indexFile :: string
  sug_overlapScore :: rat
  sug_sharedTerms :: nat

record PreloadDocIndex =
  idx_doc :: PreloadDocSummary
  idx_headings :: "PreloadDocHeading list"
  idx_links :: "PreloadLinkIndexEntry list"
  idx_suggested :: "PreloadSuggestedDoc list option"

text \<open>The constant field \<open>version: 1\<close> of the site index is left out.\<close>

record PreloadSiteIndex =
  site_generatedAt :: timestamp
  site_baseUrl :: string
  site_totalDocs :: nat
  site_docs :: "PreloadDocSummary list"

record PreloadBundle =
  bundle_siteIndex :: PreloadSiteIndex
  bundle_docIndexes :: "string \<rightharpoonup> PreloadDocIndex"
  bundle_docs :: "PreloadItem list"

text \<open>
  The functions that read Markdown with regular expressions are parameters as well: the
  title, description, heading and link extractors of \<open>preload.ts\<close>, the link rewriter
  and the tokenizer of \<open>preload-local.ts\<close>. Every theorem below holds for all of them.
\<close>

record TextFns =
  extractMarkdownTitle :: "string \<Rightarrow> string"
  extractMarkdownDescription :: "string \<Rightarrow> string"
  extractMarkdownHeadings :: "string \<Rightarrow> PreloadDocHeading list"
  extractMarkdownLinks :: "string \<Rightarrow> string \<Rightarrow> PreloadLinkIndexEntry list"
  rewriteMarkdownLinksToLocal :: "string \<Rightarrow> string \<Rightarrow> (string \<rightharpoonup> string) \<Rightarrow> string"
  tokenizeForOverlap :: "string \<Rightarrow> string \<Rightarrow> string list"

text \<open>\<open>cleanText\<close>: removing \<open>**\<close> and then \<open>*\<close> removes every asterisk.\<close>

definition cleanText :: "string \<Rightarrow> string" where
  "cleanText v = trim (collapseWhitespace (filter (\<lambda>c. c \<noteq> CHR 0x60 \<and> c \<noteq> CHR ''*'') v))"

text \<open>\<open>s.split(sep)\<close> for a one-character separator.\<close>

fun splitOnAcc :: "(char \<Rightarrow> bool) \<Rightarrow> string \<Rightarrow> string \<Rightarrow> string list" where
  "splitOnAcc isSep acc [] = [rev acc]"
| "splitOnAcc isSep acc (c # cs) =
     (if isSep c then rev acc # splitOnAcc isSep [] cs else splitOnAcc isSep (c # acc) cs)"

definition splitOn :: "(char \<Rightarrow> bool) \<Rightarrow> string \<Rightarrow> string list" where
  "splitOn isSep s = splitOnAcc isSep [] s"

text \<open>\<open>source.split("/").filter(Boolean).pop()\<close>, \<open>None\<close> for \<open>undefined\<close>.\<close>

definition lastSegment :: "string \<Rightarrow> string option" where
  "lastSegment source =
     (case rev (filter (\<lambda>p. p \<noteq> []) (splitOn (\<lambda>c. c = CHR ''/'') source)) of
        [] \<Rightarrow> None
      | p # _ \<Rightarrow> Some p)"

definition humanizePath :: "UrlApi \<Rightarrow> string \<Rightarrow> string \<Rightarrow> error + string" where
  "humanizePath U path url =
     (case (if path \<noteq> [] \<and> path \<noteq> ''/'' then Some path
            else map_option url_pathname (parseUrl U url)) of
        None \<Rightarrow> Inl ''Invalid URL''
      | Some source \<Rightarrow>
          (let part = (case lastSegment source of None \<Rightarrow> ''Documentation'' | Some p \<Rightarrow> p)
           in Inr (cleanText (map (\<lambda>c. if c = CHR ''-'' \<or> c = CHR ''_'' then CHR '' '' else c) part))))"

definition normalizeComparableUrl :: "UrlApi \<Rightarrow> string \<Rightarrow> string" where
  "normalizeComparableUrl U url =
     (case parseUrl U url of
        None \<Rightarrow> url
      | Some parsed \<Rightarrow>
          (let asString = hrefOf U (parsed\<lparr>url_hash := []\<rparr>)
           in if endsWith asString ''/'' then butlast asString else asString))"

text \<open>
  \<open>slugifyFileBase\<close> and \<open>slugify\<close>: lower case, every maximal run of characters
  outside \<open>[a-z0-9]\<close> becomes one hyphen, hyphens at both ends are dropped.
\<close>

definition isSlugChar :: "char \<Rightarrow> bool" where
  "isSlugChar c = ((CHR ''a'' \<le> c \<and> c \<le> CHR ''z'') \<or> (CHR ''0'' \<le> c \<and> c \<le> CHR ''9''))"

fun hyphenateFrom :: "bool \<Rightarrow> string \<Rightarrow> string" where
  "hyphenateFrom inRun [] = []"
| "hyphenateFrom inRun (c # cs) =
     (if isSlugChar c then c # hyphenateFrom False cs
      else if inRun then hyphenateFrom True cs else CHR ''-'' # hyphenateFrom True cs)"

definition slugCore :: "string \<Rightarrow> string" where
  "slugCore v =
     rev (dropWhile (\<lambda>c. c = CHR ''-'')
       (rev (dropWhile (\<lambda>c. c = CHR ''-'') (hyphenateFrom False (toLowerCase v)))))"

definition slugifyFileBase :: "string \<Rightarrow> string" where
  "slugifyFileBase v = (let slug = slugCore v in if slug = [] then ''document'' else slug)"

definition slugify :: "string \<Rightarrow> string" where
  "slugify v = (let slug = slugCore v in if slug = [] then ''doc'' else slug)"

section \<open>Building the bundle (\<open>preload.ts\<close>)\<close>

lemma digitChar_inj: "a < 10 \<Longrightarrow> b < 10 \<Longrightarrow> digitChar a = digitChar b \<Longrightarrow> a = b"
  unfolding digitChar_def by (simp split: if_splits; arith)

lemma decimal_nonempty: "decimal n \<noteq> []"
  by (subst decimal.simps) simp

lemma decimal_eqD: "decimal m = decimal n \<Longrightarrow> m = n"
proof (induction m arbitrary: n rule: decimal.induct)
  case (1 m)
  show ?case
  proof (cases "m < 10")
    case small: True
    show ?thesis
    proof (cases "n < 10")
      case True
      with small "1.prems" show ?thesis
        by (simp add: decimal.simps [of m] decimal.simps [of n] digitChar_inj)
    next
      case False
      with small "1.prems" decimal_nonempty [of "n div 10"] show ?thesis
        by (simp add: decimal.simps [of m] decimal.simps [of n] Cons_eq_append_conv)
    qed
  next
    case big: False
    show ?thesis
    proof (cases "n < 10")
      case True
      with big "1.prems" decimal_nonempty [of "m div 10"] show ?thesis
        by (simp add: decimal.simps [of m] decimal.simps [of n] append_eq_Cons_conv)
    next
      case False
      with big "1.prems" have eq: "decimal (m div 10) = decimal (n div 10)"
        and d: "digitChar (m mod 10) = digitChar (n mod 10)"
        by (simp_all add: decimal.simps [of m] decimal.simps [of n])
      from "1.IH" [OF big eq] have "m div 10 = n div 10" .
      moreover from d have "m mod 10 = n mod 10"
        by (intro digitChar_inj) simp_all
      ultimately show ?thesis
        by (metis div_mult_mod_eq)
    qed
  qed
qed

text \<open>The template string \<open>`${base}-${count}`\<close>.\<close>

definition numbered :: "string \<Rightarrow> nat \<Rightarrow> string" where
  "numbered base cnt = base @ ''-'' @ decimal cnt"

lemma finite_numbered_used: "finite {k. numbered base k \<in> set used}"
proof -
  have "inj (numbered base)"
    by (rule injI) (simp add: numbered_def decimal_eqD)
  then have "finite (numbered base -` set used)"
    by (intro finite_vimageI) simp_all
  then show ?thesis
    by (simp add: vimage_def)
qed

text \<open>The loop \<open>while (used.has(`${base}-${count}`)) count += 1\<close> of \<open>uniqueFileBase\<close>.\<close>

function firstFreeCount :: "string \<Rightarrow> string list \<Rightarrow> nat \<Rightarrow> nat" where
  "firstFreeCount base used cnt =
     (if numbered base cnt \<in> set used then firstFreeCount base used (cnt + 1) else cnt)"
  by pat_completeness auto
termination
proof (relation "measure (\<lambda>(base, used, cnt). card {k. cnt \<le> k \<and> numbered base k \<in> set used})")
  show "wf (measure (\<lambda>(base, used, cnt). card {k. cnt \<le> k \<and> numbered base k \<in> set used}))"
    by simp
next
  fix base :: string and used :: "string list" and cnt :: nat
  assume taken: "numbered base cnt \<in> set used"
  have fin: "finite {k. cnt \<le> k \<and> numbered base k \<in> set used}"
    by (rule finite_subset [OF _ finite_numbered_used [of base used]]) auto
  have inside: "cnt \<in> {k. cnt \<le> k \<and> numbered base k \<in> set used}"
    using taken by simp
  have outside: "cnt \<notin> {k. cnt + 1 \<le> k \<and> numbered base k \<in> set used}"
    by simp
  have "{k. cnt + 1 \<le> k \<and> numbered base k \<in> set used}
      \<subseteq> {k. cnt \<le> k \<and> numbered base k \<in> set used}"
    by auto
  with inside outside have "{k. cnt + 1 \<le> k \<and> numbered base k \<in> set used}
      \<subset> {k. cnt \<le> k \<and> numbered base k \<in> set used}"
    by blast
  from psubset_card_mono [OF fin this]
  show "((base, used, cnt + 1), (base, used, cnt))
      \<in> measure (\<lambda>(base, used, cnt). card {k. cnt \<le> k \<and> numbered base k \<in> set used})"
    by simp
qed

declare firstFreeCount.simps [simp del]

text \<open>The set \<open>usedFileBases\<close> is a list in insertion order.\<close>

definition uniqueFileBase :: "string \<Rightarrow> string list \<Rightarrow> string \<times> string list" where
  "uniqueFileBase base used =
     (if base \<notin> set used then (base, used @ [base])
      else (let next = numbered base (firstFreeCount base used 2) in (next, used @ [next])))"

definition docIdOf :: "nat \<Rightarrow> string" where
  \<comment> \<open>\<open>`doc-${String(index + 1).padStart(5, "0")}`\<close>\<close>
  "docIdOf index = ''doc-'' @ padStart 5 (CHR ''0'') (decimal (index + 1))"

text \<open>
  The callback of \<open>normalizedItems.map\<close>, with the index and the set of used file bases
  passed along. \<open>humanizePath\<close> throws on a URL that does not parse.
\<close>

fun buildSummaries ::
  "UrlApi \<Rightarrow> TextFns \<Rightarrow> PreloadItem list \<Rightarrow> nat \<Rightarrow> string list \<Rightarrow> error + PreloadDocSummary list" where
  "buildSummaries U T [] index used = Inr []"
| "buildSummaries U T (item # rest) index used =
     (case (if extractMarkdownTitle T (item_content item) \<noteq> []
            then Inr (extractMarkdownTitle T (item_content item))
            else humanizePath U (item_path item) (item_url item)) of
        Inl e \<Rightarrow> Inl e
      | Inr title \<Rightarrow>
          (case (if title \<noteq> [] then Inr title else humanizePath U (item_path item) (item_url item)) of
             Inl e \<Rightarrow> Inl e
           | Inr nameSource \<Rightarrow>
               (let (fileBase, used') = uniqueFileBase (slugifyFileBase nameSource) used;
                    summary = \<lparr> doc_id = docIdOf index,
                                doc_path = item_path item,
                                doc_url = item_url item,
                                doc_docsetType = item_docsetType item,
                                doc_title = title,
                                doc_description = extractMarkdownDescription T (item_content item),
                                doc_contentFile = fileBase @ ''.md'',
                                doc_indexFile = fileBase @ ''.index.json'' \<rparr>
                in case buildSummaries U T rest (index + 1) used' of
                     Inl e \<Rightarrow> Inl e
                   | Inr others \<Rightarrow> Inr (summary # others))))"

text \<open>\<open>urlToId\<close>: a later \<open>set\<close> for the same key replaces the earlier one.\<close>

definition buildUrlToId :: "UrlApi \<Rightarrow> PreloadDocSummary list \<Rightarrow> (string \<rightharpoonup> string)" where
  "buildUrlToId U summaries =
     foldl (\<lambda>m s. m(normalizeComparableUrl U (doc_url s) \<mapsto> doc_id s)) Map.empty summaries"

fun dedupeLinkEntriesFrom ::
  "string list \<Rightarrow> PreloadLinkIndexEntry list \<Rightarrow> PreloadLinkIndexEntry list" where
  "dedupeLinkEntriesFrom seen [] = []"
| "dedupeLinkEntriesFrom seen (entry # rest) =
     (let key = link_url entry @ ''::'' @ link_title entry
      in if key \<in> set seen then dedupeLinkEntriesFrom seen rest
         else entry # dedupeLinkEntriesFrom (key # seen) rest)"

definition dedupeLinkEntries :: "PreloadLinkIndexEntry list \<Rightarrow> PreloadLinkIndexEntry list" where
  "dedupeLinkEntries entries = dedupeLinkEntriesFrom [] entries"

text \<open>The loop that fills \<open>docIndexes\<close>; the new index has no \<open>suggested\<close> field.\<close>

fun buildDocIndexes ::
  "UrlApi \<Rightarrow> TextFns \<Rightarrow> PreloadItem list \<Rightarrow> (string \<rightharpoonup> string) \<Rightarrow> PreloadDocSummary list
     \<Rightarrow> (string \<rightharpoonup> PreloadDocIndex) \<Rightarrow> (string \<rightharpoonup> PreloadDocIndex)" where
  "buildDocIndexes U T normalizedItems urlToId [] docIndexes = docIndexes"
| "buildDocIndexes U T normalizedItems urlToId (summary # rest) docIndexes =
     (case find (\<lambda>item. normalizeComparableUrl U (item_url item)
                           = normalizeComparableUrl U (doc_url summary)) normalizedItems of
        None \<Rightarrow> buildDocIndexes U T normalizedItems urlToId rest docIndexes
      | Some doc \<Rightarrow>
          (let headings = extractMarkdownHeadings T (item_content doc);
               rawLinks = extractMarkdownLinks T (item_content doc) (item_url doc);
               dedupedLinks = map (\<lambda>link. link\<lparr>link_localDocId :=
                                   urlToId (normalizeComparableUrl U (link_url link))\<rparr>)
                                (dedupeLinkEntries rawLinks)
           in buildDocIndexes U T normalizedItems urlToId rest
                (docIndexes(doc_id summary \<mapsto>
                   \<lparr> idx_doc = summary, idx_headings = headings, idx_links = dedupedLinks,
                     idx_suggested = None \<rparr>))))"

text \<open>
  \<open>buildPreloadBundle\<close>. \<open>Array.prototype.sort\<close> is stable, as \<open>sort_key\<close> is; \<open>now\<close> is
  the instant read by \<open>new Date()\<close>.
\<close>

definition buildPreloadBundle ::
  "UrlApi \<Rightarrow> TextFns \<Rightarrow> timestamp \<Rightarrow> string \<Rightarrow> PreloadItem list \<Rightarrow> error + PreloadBundle" where
  "buildPreloadBundle U T now baseUrl items =
     (let normalizedItems = sort_key item_url items
      in case buildSummaries U T normalizedItems 0 [] of
           Inl e \<Rightarrow> Inl e
         | Inr summaries \<Rightarrow>
             Inr \<lparr> bundle_siteIndex =
                     \<lparr> site_generatedAt = now, site_baseUrl = baseUrl,
                       site_totalDocs = length summaries, site_docs = summaries \<rparr>,
                   bundle_docIndexes =
                     buildDocIndexes U T normalizedItems (buildUrlToId U summaries) summaries Map.empty,
                   bundle_docs = normalizedItems \<rparr>)"

section \<open>The local file system\<close>

text \<open>
  The store under \<open>local/\<close> is a map from paths (relative to the working directory) to
  file contents. A JSON file holds a value of the shape its writer gave it; a content
  file holds text. Reading a path that holds nothing fails; writing to a path, or making
  a directory, fails where the file system refuses it (\<open>writable\<close>), and a failed write
  leaves the store as it was. File names are plain names, so \<open>path.join\<close> and
  \<open>path.resolve\<close> put a separator between their arguments.
\<close>

record LocalSitesIndexEntry =
  entry_slug :: string
  entry_baseUrl :: string
  entry_totalDocs :: nat
  entry_updatedAt :: timestamp

record LocalSitesIndex =
  sites_generatedAt :: timestamp
  sites_sites :: "LocalSitesIndexEntry list"

datatype PreloadJobStatus = Queued | Running | Completed | Failed

record JobRequest =
  req_baseUrl :: string
  req_format :: string
  req_maxPages :: nat
  req_maxDiscover :: nat
  req_maxDepth :: nat
  req_concurrency :: nat
  req_saveLocal :: bool

record JobProgress =
  prog_discovered :: nat
  prog_total :: nat
  prog_completed :: nat
  prog_failed :: nat

record PersistedJobSnapshot =
  snap_id :: string
  snap_status :: PreloadJobStatus
  snap_createdAt :: timestamp
  snap_updatedAt :: timestamp
  snap_request :: JobRequest
  snap_progress :: JobProgress
  snap_error :: "string option"

record JobsListEntry =
  jl_id :: string
  jl_status :: PreloadJobStatus
  jl_updatedAt :: timestamp

datatype FileData =
    TextFile string
  | SiteIndexFile PreloadSiteIndex
  | DocIndexFile PreloadDocIndex
  | SitesIndexFile LocalSitesIndex
  | JobFile PersistedJobSnapshot
  | JobsListFile "JobsListEntry list"

record FS =
  files :: "string \<rightharpoonup> FileData"
  writable :: "string \<Rightarrow> bool"

definition readFile :: "FS \<Rightarrow> string \<Rightarrow> error + FileData" where
  "readFile fs p = (case files fs p of None \<Rightarrow> Inl ''ENOENT: no such file or directory'' | Some d \<Rightarrow> Inr d)"

definition writeFile :: "FS \<Rightarrow> string \<Rightarrow> FileData \<Rightarrow> error + FS" where
  "writeFile fs p d =
     (if writable fs p then Inr (fs\<lparr>files := (files fs)(p \<mapsto> d)\<rparr>)
      else Inl ''EACCES: permission denied'')"

definition mkdir :: "FS \<Rightarrow> string \<Rightarrow> error + FS" where
  "mkdir fs p = (if writable fs p then Inr fs else Inl ''EACCES: permission denied'')"

definition pathJoin :: "string \<Rightarrow> string \<Rightarrow> string" where
  "pathJoin dir name = dir @ ''/'' @ name"

definition localRoot :: string where
  "localRoot = ''local''"

section \<open>Local search (\<open>local-docs.ts\<close>)\<close>

text \<open>
  \<open>fs.readFile(path, "utf8")\<close> returns the text of a file; for a JSON file that is the
  text \<open>JSON.stringify\<close> produced, a function \<open>J\<close> of the platform.
\<close>

definition fileText :: "(FileData \<Rightarrow> string) \<Rightarrow> FileData \<Rightarrow> string" where
  "fileText J d = (case d of TextFile t \<Rightarrow> t | _ \<Rightarrow> J d)"






text \<open>\<open>computeSearchScore\<close>: the four additions are independent \<open>if\<close> statements.\<close>

definition computeSearchScore :: "string \<Rightarrow> string \<Rightarrow> int \<Rightarrow> int" where
  "computeSearchScore title query contentIndex =
     (let normalizedTitle = toLowerCase title;
          s0 = (0::int);
          s1 = (if normalizedTitle = query then s0 + 120 else s0);
          s2 = (if startsWith normalizedTitle query then s1 + 80 else s1);
          s3 = (if includesStr normalizedTitle query then s2 + 40 else s2)
      in if 0 \<le> contentIndex
         then s3 + 20 + max 0 (20 - contentIndex div 400)
         else s3)"










section \<open>URL discovery (\<open>docset/preload.ts\<close>)\<close>

definition SEARCH_INDEX_PATHS :: "string list" where
  "SEARCH_INDEX_PATHS =
     [''search/search_index.json'', ''searchindex.json'', ''search.json'', ''search-index.json'',
      ''searchindex.js'']"

definition SITEMAP_PATHS :: "string list" where
  "SITEMAP_PATHS = [''sitemap.xml'', ''sitemap_index.xml'']"

definition NON_DOC_EXTENSIONS :: "string list" where
  "NON_DOC_EXTENSIONS =
     [''.png'', ''.jpg'', ''.jpeg'', ''.gif'', ''.webp'', ''.svg'', ''.ico'', ''.pdf'', ''.zip'',
      ''.gz'', ''.tgz'', ''.tar'', ''.mp4'', ''.mp3'', ''.wav'', ''.css'', ''.js'', ''.map'',
      ''.woff'', ''.woff2'', ''.ttf'', ''.otf'']"

record DiscoverOptions =
  includeIndexes :: "bool option"
  includeLinks :: "bool option"
  maxDiscover :: "JsNumber option"
  maxDepth :: "JsNumber option"
  sameHostOnly :: "bool option"

record Diagnostics =
  attempted :: "string list"
  fetched :: "string list"
  errors :: "(string \<times> string) list"

record DiscoverResult =
  urls :: "string list"
  diagnostics :: Diagnostics

text \<open>
  What discovery takes from outside: the URL class, the network and the three parsers
  of fetched text (regular expressions and \<open>JSON.parse\<close>). \<open>fetchText\<close> answers a
  request by its number (the requests made so far), its URL and its \<open>Accept\<close> header; an
  error is the message of the exception.
\<close>

record DiscoverEnv =
  urlApi :: UrlApi
  fetchText :: "nat \<Rightarrow> string \<Rightarrow> string \<Rightarrow> error + string"
  parseLinksFromHtml :: "string \<Rightarrow> string \<Rightarrow> string list"
  parseSitemapUrls :: "string \<Rightarrow> string \<Rightarrow> string list"
  parseSearchIndexUrls :: "string \<Rightarrow> string \<Rightarrow> string list"

definition normalizePositiveInt :: "JsNumber option \<Rightarrow> nat \<Rightarrow> int \<Rightarrow> nat" where
  "normalizePositiveInt v defaultValue maxValue =
     (case v of
        None \<Rightarrow> defaultValue
      | Some NaN \<Rightarrow> defaultValue
      | Some n \<Rightarrow> nat (clampFloor maxValue n))"

definition normalizeUrl :: "UrlApi \<Rightarrow> string \<Rightarrow> error + string" where
  "normalizeUrl U url =
     (case parseUrl U url of
        None \<Rightarrow> Inl ''Invalid URL''
      | Some parsed \<Rightarrow> Inr (hrefOf U (parsed\<lparr>url_hash := []\<rparr>)))"

definition isAllowedUrl :: "UrlApi \<Rightarrow> string \<Rightarrow> URL \<Rightarrow> bool \<Rightarrow> bool" where
  "isAllowedUrl U url base sameHost =
     (case parseUrl U url of
        None \<Rightarrow> False
      | Some parsed \<Rightarrow>
          (if url_protocol parsed \<notin> set [''http:'', ''https:''] then False
           else if sameHost \<and> url_hostname parsed \<noteq> url_hostname base then False
           else True))"

definition isLikelyDocumentationPage :: "UrlApi \<Rightarrow> string \<Rightarrow> bool" where
  "isLikelyDocumentationPage U url =
     (case parseUrl U url of
        None \<Rightarrow> False
      | Some parsed \<Rightarrow>
          (let path = toLowerCase (url_pathname parsed)
           in list_all (\<lambda>ext. \<not> endsWith path ext) NON_DOC_EXTENSIONS))"

fun dedupeFrom :: "string list \<Rightarrow> string list \<Rightarrow> string list" where
  "dedupeFrom seen [] = []"
| "dedupeFrom seen (v # vs) =
     (if v = [] \<or> v \<in> set seen then dedupeFrom seen vs else v # dedupeFrom (v # seen) vs)"

definition dedupePreserveOrder :: "string list \<Rightarrow> string list" where
  "dedupePreserveOrder values = dedupeFrom [] values"

text \<open>\<open>Set.prototype.add\<close> on a set kept in insertion order.\<close>

definition setAdd :: "string \<Rightarrow> string list \<Rightarrow> string list" where
  "setAdd x xs = (if x \<in> set xs then xs else xs @ [x])"

definition buildIndexBaseCandidates :: "UrlApi \<Rightarrow> URL \<Rightarrow> error + URL list" where
  "buildIndexBaseCandidates U base =
     (case resolveUrl U ''/'' (hrefOf U base) of
        None \<Rightarrow> Inl ''Invalid URL''
      | Some rootUrl \<Rightarrow>
          (case parseUrl U (hrefOf U base) of
             None \<Rightarrow> Inl ''Invalid URL''
           | Some currentDir \<Rightarrow>
               (let currentDir' =
                      (if \<not> endsWith (url_pathname currentDir) ''/''
                       then currentDir\<lparr>url_pathname := url_pathname currentDir @ ''/''\<rparr>
                       else currentDir);
                    values = dedupePreserveOrder [hrefOf U currentDir', hrefOf U rootUrl]
                in if list_all (\<lambda>v. parseUrl U v \<noteq> None) values
                   then Inr (map (\<lambda>v. the (parseUrl U v)) values)
                   else Inl ''Invalid URL'')))"

record CrawlState =
  discovered :: "string list"
  seenCrawl :: "string list"
  queue :: "(string \<times> nat) list"
  diag :: Diagnostics

text \<open>
  The \<open>for\<close> loop of \<open>tryDiscoverFromSitemap\<close> and \<open>tryDiscoverFromSearchIndex\<close>, with its
  \<open>continue\<close> and \<open>break\<close>.
\<close>

fun admitUrls :: "UrlApi \<Rightarrow> URL \<Rightarrow> bool \<Rightarrow> nat \<Rightarrow> string list \<Rightarrow> string list \<Rightarrow> string list" where
  "admitUrls U base sameHost maxD [] found = found"
| "admitUrls U base sameHost maxD (url # rest) found =
     (if \<not> isAllowedUrl U url base sameHost then admitUrls U base sameHost maxD rest found
      else if \<not> isLikelyDocumentationPage U url then admitUrls U base sameHost maxD rest found
      else (let found' = setAdd url found
            in if maxD \<le> length found' then found'
               else admitUrls U base sameHost maxD rest found'))"

definition tryDiscoverFromSitemap ::
  "DiscoverEnv \<Rightarrow> URL \<Rightarrow> nat \<Rightarrow> bool \<Rightarrow> string \<Rightarrow> CrawlState \<Rightarrow> CrawlState" where
  "tryDiscoverFromSitemap E base maxD sameHost sitemapUrl st =
     (let n = length (attempted (diag st));
          d1 = (diag st)\<lparr>attempted := attempted (diag st) @ [sitemapUrl]\<rparr>
      in case fetchText E n sitemapUrl ''application/xml, text/xml, text/plain'' of
           Inl e \<Rightarrow> st\<lparr>diag := d1\<lparr>errors := errors d1 @ [(sitemapUrl, e)]\<rparr>\<rparr>
         | Inr xml \<Rightarrow>
             st\<lparr>diag := d1\<lparr>fetched := fetched d1 @ [sitemapUrl]\<rparr>,
                discovered := admitUrls (urlApi E) base sameHost maxD
                                (parseSitemapUrls E xml sitemapUrl) (discovered st)\<rparr>)"

definition tryDiscoverFromSearchIndex ::
  "DiscoverEnv \<Rightarrow> URL \<Rightarrow> nat \<Rightarrow> bool \<Rightarrow> string \<Rightarrow> string \<Rightarrow> CrawlState \<Rightarrow> CrawlState" where
  "tryDiscoverFromSearchIndex E base maxD sameHost indexUrl indexBase st =
     (let n = length (attempted (diag st));
          d1 = (diag st)\<lparr>attempted := attempted (diag st) @ [indexUrl]\<rparr>
      in case fetchText E n indexUrl ''application/json, text/javascript, text/plain'' of
           Inl e \<Rightarrow> st\<lparr>diag := d1\<lparr>errors := errors d1 @ [(indexUrl, e)]\<rparr>\<rparr>
         | Inr raw \<Rightarrow>
             st\<lparr>diag := d1\<lparr>fetched := fetched d1 @ [indexUrl]\<rparr>,
                discovered := admitUrls (urlApi E) base sameHost maxD
                                (parseSearchIndexUrls E raw indexBase) (discovered st)\<rparr>)"

fun sitemapLoop ::
  "DiscoverEnv \<Rightarrow> URL \<Rightarrow> nat \<Rightarrow> bool \<Rightarrow> URL \<Rightarrow> string list \<Rightarrow> CrawlState \<Rightarrow> error + CrawlState" where
  "sitemapLoop E base maxD sameHost indexBase [] st = Inr st"
| "sitemapLoop E base maxD sameHost indexBase (path # rest) st =
     (if maxD \<le> length (discovered st) then Inr st
      else (case resolveUrl (urlApi E) path (hrefOf (urlApi E) indexBase) of
              None \<Rightarrow> Inl ''Invalid URL''
            | Some u \<Rightarrow>
                sitemapLoop E base maxD sameHost indexBase rest
                  (tryDiscoverFromSitemap E base maxD sameHost (hrefOf (urlApi E) u) st)))"

fun searchIndexLoop ::
  "DiscoverEnv \<Rightarrow> URL \<Rightarrow> nat \<Rightarrow> bool \<Rightarrow> URL \<Rightarrow> string list \<Rightarrow> CrawlState \<Rightarrow> error + CrawlState" where
  "searchIndexLoop E base maxD sameHost indexBase [] st = Inr st"
| "searchIndexLoop E base maxD sameHost indexBase (path # rest) st =
     (if maxD \<le> length (discovered st) then Inr st
      else (case resolveUrl (urlApi E) path (hrefOf (urlApi E) indexBase) of
              None \<Rightarrow> Inl ''Invalid URL''
            | Some u \<Rightarrow>
                searchIndexLoop E base maxD sameHost indexBase rest
                  (tryDiscoverFromSearchIndex E base maxD sameHost (hrefOf (urlApi E) u)
                     (hrefOf (urlApi E) indexBase) st)))"

fun indexBasesLoop ::
  "DiscoverEnv \<Rightarrow> URL \<Rightarrow> nat \<Rightarrow> bool \<Rightarrow> URL list \<Rightarrow> CrawlState \<Rightarrow> error + CrawlState" where
  "indexBasesLoop E base maxD sameHost [] st = Inr st"
| "indexBasesLoop E base maxD sameHost (indexBase # rest) st =
     (case sitemapLoop E base maxD sameHost indexBase SITEMAP_PATHS st of
        Inl e \<Rightarrow> Inl e
      | Inr st1 \<Rightarrow>
          (case searchIndexLoop E base maxD sameHost indexBase SEARCH_INDEX_PATHS st1 of
             Inl e \<Rightarrow> Inl e
           | Inr st2 \<Rightarrow> indexBasesLoop E base maxD sameHost rest st2))"

text \<open>The \<open>for (const link of links)\<close> loop of the crawl.\<close>

fun addLinks ::
  "UrlApi \<Rightarrow> URL \<Rightarrow> bool \<Rightarrow> nat \<Rightarrow> nat \<Rightarrow> nat \<Rightarrow> string list \<Rightarrow> CrawlState \<Rightarrow> CrawlState" where
  "addLinks U base sameHost maxD maxDep depth [] st = st"
| "addLinks U base sameHost maxD maxDep depth (link # rest) st =
     (if \<not> isAllowedUrl U link base sameHost then addLinks U base sameHost maxD maxDep depth rest st
      else if \<not> isLikelyDocumentationPage U link then addLinks U base sameHost maxD maxDep depth rest st
      else if link \<in> set (discovered st) then addLinks U base sameHost maxD maxDep depth rest st
      else (let st1 = st\<lparr>discovered := discovered st @ [link]\<rparr>;
                st2 = (if depth < maxDep then st1\<lparr>queue := queue st1 @ [(link, depth + 1)]\<rparr> else st1)
            in if maxD \<le> length (discovered st2) then st2
               else addLinks U base sameHost maxD maxDep depth rest st2))"

text \<open>One turn of the \<open>while\<close> loop, for a queue that is not empty.\<close>

definition crawlStep :: "DiscoverEnv \<Rightarrow> URL \<Rightarrow> bool \<Rightarrow> nat \<Rightarrow> nat \<Rightarrow> CrawlState \<Rightarrow> CrawlState" where
  "crawlStep E base sameHost maxD maxDep st =
     (case queue st of
        [] \<Rightarrow> st
      | (url, depth) # rest \<Rightarrow>
          (let st0 = st\<lparr>queue := rest\<rparr>
           in if maxDep < depth then st0
              else if url \<in> set (seenCrawl st0) then st0
              else (let st1 = st0\<lparr>seenCrawl := seenCrawl st0 @ [url]\<rparr>;
                        n = length (attempted (diag st1));
                        d1 = (diag st1)\<lparr>attempted := attempted (diag st1) @ [url]\<rparr>
                    in case fetchText E n url ''text/html'' of
                         Inl e \<Rightarrow> st1\<lparr>diag := d1\<lparr>errors := errors d1 @ [(url, e)]\<rparr>\<rparr>
                       | Inr html \<Rightarrow>
                           addLinks (urlApi E) base sameHost maxD maxDep depth
                             (parseLinksFromHtml E html url)
                             (st1\<lparr>diag := d1\<lparr>fetched := fetched d1 @ [url]\<rparr>\<rparr>))))"

lemma addLinks_discovered_mono:
  "length (discovered st) \<le> length (discovered (addLinks U base sameHost maxD maxDep depth links st))"
proof (induction links arbitrary: st)
  case Nil
  show ?case by simp
next
  case (Cons link rest)
  have step: "length (discovered st) \<le> length (discovered (addLinks U base sameHost maxD maxDep depth rest st'))"
    if "length (discovered st) \<le> length (discovered st')" for st'
    using that Cons.IH [of st'] by linarith
  show ?case
    by (auto simp: Let_def intro!: step)
qed

lemma addLinks_queue_bound:
  "length (queue (addLinks U base sameHost maxD maxDep depth links st)) + length (discovered st)
     \<le> length (queue st) + length (discovered (addLinks U base sameHost maxD maxDep depth links st))"
proof (induction links arbitrary: st)
  case Nil
  show ?case by simp
next
  case (Cons link rest)
  have step: "length (queue (addLinks U base sameHost maxD maxDep depth rest st')) + length (discovered st)
      \<le> length (queue st) + length (discovered (addLinks U base sameHost maxD maxDep depth rest st'))"
    if "length (queue st') + length (discovered st) \<le> length (queue st) + length (discovered st')" for st'
    using that Cons.IH [of st'] by linarith
  show ?case
    by (auto simp: Let_def intro!: step)
qed

lemma crawlStep_decreases:
  assumes "queue st \<noteq> []" and "length (discovered st) < maxD"
  shows "length (discovered st) < length (discovered (crawlStep E base sameHost maxD maxDep st))
       \<or> (length (discovered (crawlStep E base sameHost maxD maxDep st)) = length (discovered st)
          \<and> length (queue (crawlStep E base sameHost maxD maxDep st)) < length (queue st))"
proof -
  obtain url depth rest where q: "queue st = (url, depth) # rest"
    using assms(1) by (cases "queue st") auto
  show ?thesis
  proof (cases "maxDep < depth \<or> url \<in> set (seenCrawl st)")
    case True
    then show ?thesis
      by (auto simp: crawlStep_def q Let_def)
  next
    case visit: False
    show ?thesis
    proof (cases "fetchText E (length (attempted (diag st))) url ''text/html''")
      case (Inl e)
      with visit show ?thesis
        by (simp add: crawlStep_def q Let_def)
    next
      case (Inr html)
      define st' where "st' = st\<lparr>queue := rest, seenCrawl := seenCrawl st @ [url],
        diag := (diag st)\<lparr>attempted := attempted (diag st) @ [url],
                          fetched := fetched (diag st) @ [url]\<rparr>\<rparr>"
      define links where "links = parseLinksFromHtml E html url"
      have step: "crawlStep E base sameHost maxD maxDep st
          = addLinks (urlApi E) base sameHost maxD maxDep depth links st'"
        using visit Inr by (simp add: crawlStep_def q Let_def st'_def links_def)
      have d: "discovered st' = discovered st" and r: "queue st' = rest"
        by (simp_all add: st'_def)
      from addLinks_discovered_mono [of st' "urlApi E" base sameHost maxD maxDep depth links]
        addLinks_queue_bound [of "urlApi E" base sameHost maxD maxDep depth links st']
      show ?thesis
        unfolding step d r q by auto
    qed
  qed
qed

text \<open>The \<open>while (queue.length > 0 && discovered.size < maxDiscover)\<close> loop.\<close>

function crawlLoop :: "DiscoverEnv \<Rightarrow> URL \<Rightarrow> bool \<Rightarrow> nat \<Rightarrow> nat \<Rightarrow> CrawlState \<Rightarrow> CrawlState" where
  "crawlLoop E base sameHost maxD maxDep st =
     (if queue st \<noteq> [] \<and> length (discovered st) < maxD
      then crawlLoop E base sameHost maxD maxDep (crawlStep E base sameHost maxD maxDep st)
      else st)"
  by pat_completeness auto
termination
proof (relation "measures [\<lambda>(E, base, sameHost, maxD, maxDep, st). maxD - length (discovered st),
                           \<lambda>(E, base, sameHost, maxD, maxDep, st). length (queue st)]")
  show "wf (measures [\<lambda>(E, base, sameHost, maxD, maxDep, st). maxD - length (discovered st),
                      \<lambda>(E, base, sameHost, maxD, maxDep, st). length (queue st)])"
    by simp
next
  fix E :: DiscoverEnv and base :: URL and sameHost :: bool and maxD maxDep :: nat and st :: CrawlState
  assume "queue st \<noteq> [] \<and> length (discovered st) < maxD"
  then have q: "queue st \<noteq> []" and d: "length (discovered st) < maxD"
    by simp_all
  from crawlStep_decreases [OF q d, of E base sameHost maxDep] d
  show "((E, base, sameHost, maxD, maxDep, crawlStep E base sameHost maxD maxDep st),
         (E, base, sameHost, maxD, maxDep, st))
      \<in> measures [\<lambda>(E, base, sameHost, maxD, maxDep, st). maxD - length (discovered st),
                   \<lambda>(E, base, sameHost, maxD, maxDep, st). length (queue st)]"
    by auto
qed

declare crawlLoop.simps [simp del]

definition discoverDocumentationUrls ::
  "DiscoverEnv \<Rightarrow> string \<Rightarrow> DiscoverOptions \<Rightarrow> error + DiscoverResult" where
  "discoverDocumentationUrls E baseUrl options =
     (let maxD = normalizePositiveInt (maxDiscover options) 300 2000;
          maxDep = normalizePositiveInt (maxDepth options) 2 5;
          withIndexes = (includeIndexes options \<noteq> Some False);
          withLinks = (includeLinks options \<noteq> Some False);
          sameHost = (sameHostOnly options \<noteq> Some False)
      in case normalizeUrl (urlApi E) baseUrl of
           Inl e \<Rightarrow> Inl e
         | Inr normalizedBase \<Rightarrow>
             (case parseUrl (urlApi E) normalizedBase of
                None \<Rightarrow> Inl ''Invalid URL''
              | Some base \<Rightarrow>
                  (let st0 = \<lparr> discovered = [normalizedBase], seenCrawl = [],
                               queue = [(normalizedBase, 0)],
                               diag = \<lparr> attempted = [], fetched = [], errors = [] \<rparr> \<rparr>
                   in case (if withIndexes
                            then (case buildIndexBaseCandidates (urlApi E) base of
                                    Inl e \<Rightarrow> Inl e
                                  | Inr indexBases \<Rightarrow> indexBasesLoop E base maxD sameHost indexBases st0)
                            else Inr st0) of
                        Inl e \<Rightarrow> Inl e
                      | Inr st1 \<Rightarrow>
                          (let st2 = (if withLinks then crawlLoop E base sameHost maxD maxDep st1 else st1)
                           in Inr \<lparr> urls = discovered st2, diagnostics = diag st2 \<rparr>))))"

text \<open>
  The two filters of admission together, and the relation between the set of discovered
  URLs before and after a step of discovery that the proofs below follow: URLs are only
  appended, each appended URL passed both filters, and the size stays within the bound.
\<close>

definition admissible :: "UrlApi \<Rightarrow> URL \<Rightarrow> bool \<Rightarrow> string \<Rightarrow> bool" where
  "admissible U base sameHost url = (isAllowedUrl U url base sameHost \<and> isLikelyDocumentationPage U url)"

definition grows :: "UrlApi \<Rightarrow> URL \<Rightarrow> bool \<Rightarrow> nat \<Rightarrow> string list \<Rightarrow> string list \<Rightarrow> bool" where
  "grows U base sameHost maxD before after =
     ((\<exists>added. after = before @ added \<and> list_all (admissible U base sameHost) added) \<and>
      (length before \<le> maxD \<longrightarrow> length after \<le> maxD))"

section \<open>Writing a bundle to the local store (\<open>preload-local.ts\<close>)\<close>

record LocalWriteResult =
  enabled :: bool
  directory :: string
  writtenDocs :: nat
  writtenIndexes :: nat
  siteIndexFile :: string
  docsJsonDir :: string
  jsonlFile :: string
  writeErrors :: "string list"

definition stripTrailingSlashes :: "string \<Rightarrow> string" where
  \<comment> \<open>\<open>s.replace(/\/+$/, "")\<close>\<close>
  "stripTrailingSlashes s = rev (dropWhile (\<lambda>c. c = CHR ''/'') (rev s))"

definition normalizeBaseUrlForName :: "UrlApi \<Rightarrow> string \<Rightarrow> string" where
  "normalizeBaseUrlForName U baseUrl =
     (case parseUrl U baseUrl of
        None \<Rightarrow> toLowerCase baseUrl
      | Some parsed \<Rightarrow>
          toLowerCase (url_hostname parsed @ stripTrailingSlashes (url_pathname parsed)))"

definition finalDirectoryNameFromBaseUrl :: "UrlApi \<Rightarrow> string \<Rightarrow> string" where
  "finalDirectoryNameFromBaseUrl U baseUrl =
     (let slug = slugify (normalizeBaseUrlForName U baseUrl) in if slug = [] then ''docs'' else slug)"

definition normalizeLocalComparableUrl :: "UrlApi \<Rightarrow> string \<Rightarrow> string" where
  "normalizeLocalComparableUrl U url =
     (case parseUrl U url of
        None \<Rightarrow> url
      | Some parsed \<Rightarrow>
          (let asString = hrefOf U (parsed\<lparr>url_hash := [], url_search := []\<rparr>)
           in if endsWith asString ''/'' then butlast asString else asString))"

text \<open>The map \<open>urlToLocalFile\<close>, filled in the order of the documents.\<close>

definition buildUrlToLocalFile ::
  "UrlApi \<Rightarrow> string \<Rightarrow> PreloadDocSummary list \<Rightarrow> (string \<rightharpoonup> string)" where
  "buildUrlToLocalFile U baseUrl docs =
     foldl (\<lambda>m summary.
        (let m1 = m(normalizeLocalComparableUrl U (doc_url summary) \<mapsto> doc_contentFile summary)
         in if doc_path summary \<noteq> []
            then (case resolveUrl U (doc_path summary) baseUrl of
                    None \<Rightarrow> m1
                  | Some resolved \<Rightarrow>
                      m1(normalizeLocalComparableUrl U (hrefOf U resolved) \<mapsto> doc_contentFile summary))
            else m1))
       Map.empty docs"

definition rewriteDocIndexLinksToLocal ::
  "UrlApi \<Rightarrow> PreloadDocIndex \<Rightarrow> (string \<rightharpoonup> string) \<Rightarrow> PreloadDocIndex" where
  "rewriteDocIndexLinksToLocal U docIndex urlToLocalFile =
     docIndex\<lparr>idx_links :=
       map (\<lambda>link.
              (case parseUrl U (link_url link) of
                 None \<Rightarrow> link
               | Some parsed \<Rightarrow>
                   (case urlToLocalFile (normalizeLocalComparableUrl U (hrefOf U parsed)) of
                      None \<Rightarrow> link
                    | Some localFile \<Rightarrow>
                        if localFile = [] then link
                        else link\<lparr>link_url := localFile @ url_hash parsed\<rparr>)))
           (idx_links docIndex)\<rparr>"

text \<open>
  \<open>mergeWithExistingDocIndex\<close>. An array is truthy in JavaScript even when it is empty, so
  an existing \<open>suggested\<close> array always wins here. Keys of the existing object other than
  the four of a document index are carried along by the spread and are not modelled. A
  file that holds something else than a document index gives the generated index.
\<close>

definition mergeWithExistingDocIndex :: "FS \<Rightarrow> string \<Rightarrow> PreloadDocIndex \<Rightarrow> PreloadDocIndex" where
  "mergeWithExistingDocIndex fs indexPath generated =
     (case readFile fs indexPath of
        Inr (DocIndexFile existing) \<Rightarrow>
          generated\<lparr>idx_suggested :=
            (case idx_suggested existing of
               Some existingSuggested \<Rightarrow> Some existingSuggested
             | None \<Rightarrow> idx_suggested generated)\<rparr>
      | _ \<Rightarrow> generated)"

text \<open>
  The loop over \<open>bundle.siteIndex.docs\<close>. It returns the store and the counters as they
  are when it ends, and the message of the exception when a write fails.
\<close>

fun writeDocs ::
  "UrlApi \<Rightarrow> TextFns \<Rightarrow> string \<Rightarrow> PreloadBundle \<Rightarrow> (string \<rightharpoonup> string) \<Rightarrow> PreloadDocSummary list
     \<Rightarrow> FS \<Rightarrow> LocalWriteResult \<Rightarrow> FS \<times> LocalWriteResult \<times> error option" where
  "writeDocs U T finalDir bundle urlToLocalFile [] fs result = (fs, result, None)"
| "writeDocs U T finalDir bundle urlToLocalFile (doc # rest) fs result =
     (let sourceContent =
            (case find (\<lambda>entry. item_url entry = doc_url doc \<and> item_path entry = doc_path doc)
                    (bundle_docs bundle) of
               None \<Rightarrow> []
             | Some entry \<Rightarrow> item_content entry);
          content = rewriteMarkdownLinksToLocal T sourceContent (doc_url doc) urlToLocalFile;
          rewrittenDocIndex =
            (case bundle_docIndexes bundle (doc_id doc) of
               None \<Rightarrow> \<lparr> idx_doc = doc, idx_headings = [], idx_links = [], idx_suggested = None \<rparr>
             | Some perDocIndex \<Rightarrow> rewriteDocIndexLinksToLocal U perDocIndex urlToLocalFile)
      in case writeFile fs (pathJoin finalDir (doc_contentFile doc)) (TextFile content) of
           Inl e \<Rightarrow> (fs, result, Some e)
         | Inr fs1 \<Rightarrow>
             (let result1 = result\<lparr>writtenDocs := writtenDocs result + 1\<rparr>;
                  indexPath = pathJoin finalDir (doc_indexFile doc);
                  mergedIndex = mergeWithExistingDocIndex fs1 indexPath rewrittenDocIndex
              in case writeFile fs1 indexPath (DocIndexFile mergedIndex) of
                   Inl e \<Rightarrow> (fs1, result1, Some e)
                 | Inr fs2 \<Rightarrow>
                     writeDocs U T finalDir bundle urlToLocalFile rest fs2
                       (result1\<lparr>writtenIndexes := writtenIndexes result1 + 1\<rparr>)))"

definition sitesIndexPath :: string where
  "sitesIndexPath = pathJoin localRoot ''sites-index.json''"

text \<open>
  \<open>updateLocalSitesIndex\<close>. Entries without a slug or a base URL are dropped on reading;
  the entry of the slug is replaced; entries of other slugs stay.
\<close>

definition updateLocalSitesIndex :: "FS \<Rightarrow> timestamp \<Rightarrow> LocalSitesIndexEntry \<Rightarrow> error + FS" where
  "updateLocalSitesIndex fs now nextEntry =
     (let current =
            (case readFile fs sitesIndexPath of
               Inr (SitesIndexFile parsed) \<Rightarrow>
                 filter (\<lambda>item. entry_slug item \<noteq> [] \<and> entry_baseUrl item \<noteq> []) (sites_sites parsed)
             | _ \<Rightarrow> []);
          without = filter (\<lambda>site. entry_slug site \<noteq> entry_slug nextEntry) current @ [nextEntry];
          next = \<lparr> sites_generatedAt = now, sites_sites = sort_key entry_slug without \<rparr>
      in writeFile fs sitesIndexPath (SitesIndexFile next))"

subsection \<open>Suggested documents\<close>

definition countSharedTerms :: "string list \<Rightarrow> string list \<Rightarrow> nat" where
  "countSharedTerms a b =
     (let (small, large) = (if length a \<le> length b then (a, b) else (b, a))
      in length (filter (\<lambda>token. token \<in> set large) small))"

text \<open>
  A token set is a list without repetitions. The score is the exact quotient; the code
  computes it in floating point, which agrees on the two comparisons for sets of any
  size a string can hold. \<open>Number(score.toFixed(3))\<close> rounds to three decimals.
\<close>

definition toFixed3 :: "rat \<Rightarrow> rat" where
  "toFixed3 x = of_int \<lfloor>x * 1000 + 1 / 2\<rfloor> / 1000"

definition tokenizeDoc ::
  "(FileData \<Rightarrow> string) \<Rightarrow> TextFns \<Rightarrow> FS \<Rightarrow> string \<Rightarrow> PreloadDocSummary \<Rightarrow> string list" where
  "tokenizeDoc J T fs finalDir doc =
     (case readFile fs (pathJoin finalDir (doc_contentFile doc)) of
        Inr d \<Rightarrow> remdups (tokenizeForOverlap T (fileText J d) (doc_title doc))
      | Inl e \<Rightarrow> remdups (tokenizeForOverlap T (doc_title doc) (doc_title doc)))"

definition candidateFor ::
  "PreloadDocSummary \<times> string list \<Rightarrow> PreloadDocSummary \<times> string list
     \<Rightarrow> (PreloadDocSummary \<times> rat \<times> nat) option" where
  "candidateFor source target =
     (if doc_id (fst source) = doc_id (fst target) then None
      else (let sharedTerms = countSharedTerms (snd source) (snd target)
            in if sharedTerms < 8 then None
               else (let score = of_nat sharedTerms
                                 / of_nat (max 1 (min (length (snd source)) (length (snd target))))
                     in if score < 18 / 100 then None
                        else Some (fst target, score, sharedTerms))))"

definition suggestionsFor ::
  "(PreloadDocSummary \<times> string list) list \<Rightarrow> PreloadDocSummary \<times> string list
     \<Rightarrow> (PreloadDocSummary \<times> rat \<times> nat) list" where
  "suggestionsFor tokenized source =
     take 10 (sort_key (\<lambda>(target, score, sharedTerms). (- score, - int sharedTerms, doc_title target))
                (List.map_filter (candidateFor source) tokenized))"

definition toSuggestedDoc :: "PreloadDocSummary \<times> rat \<times> nat \<Rightarrow> PreloadSuggestedDoc" where
  "toSuggestedDoc entry =
     (case entry of (target, score, sharedTerms) \<Rightarrow>
        \<lparr> sug_docId = doc_id target, sug_title = doc_title target, sug_path = doc_path target,
          sug_url = doc_url target, sug_contentFile = doc_contentFile target,
          sug_indexFile = doc_indexFile target, sug_overlapScore = toFixed3 score,
          sug_sharedTerms = sharedTerms \<rparr>)"

text \<open>\<open>byDocId\<close>: a later \<open>set\<close> for the same document id replaces the earlier one.\<close>

definition buildByDocId ::
  "(PreloadDocSummary \<times> string list) list
     \<Rightarrow> (string \<rightharpoonup> (PreloadDocSummary \<times> rat \<times> nat) list)" where
  "buildByDocId tokenized =
     foldl (\<lambda>m source. m(doc_id (fst source) \<mapsto> suggestionsFor tokenized source)) Map.empty tokenized"

text \<open>
  The body of the last loop of \<open>annotateSuggestedDocsInLocalDir\<close>: the \<open>suggested\<close> list
  on disk stays when it is an array that is not empty, and is replaced by the computed
  one otherwise. Any failure skips the document.
\<close>

definition annotateDoc ::
  "FS \<Rightarrow> string \<Rightarrow> (string \<rightharpoonup> (PreloadDocSummary \<times> rat \<times> nat) list) \<Rightarrow> PreloadDocSummary \<Rightarrow> FS" where
  "annotateDoc fs finalDir byDocId doc =
     (let indexPath = pathJoin finalDir (doc_indexFile doc)
      in case readFile fs indexPath of
           Inr (DocIndexFile parsed) \<Rightarrow>
             (let suggestions =
                    map toSuggestedDoc (case byDocId (doc_id doc) of None \<Rightarrow> [] | Some entries \<Rightarrow> entries);
                  parsed' = parsed\<lparr>idx_suggested :=
                    (case idx_suggested parsed of
                       Some existingSuggested \<Rightarrow>
                         if 0 < length existingSuggested then Some existingSuggested else Some suggestions
                     | None \<Rightarrow> Some suggestions)\<rparr>
              in case writeFile fs indexPath (DocIndexFile parsed') of
                   Inr fs' \<Rightarrow> fs'
                 | Inl e \<Rightarrow> fs)
         | _ \<Rightarrow> fs)"

definition annotateSuggestedDocsInLocalDir ::
  "(FileData \<Rightarrow> string) \<Rightarrow> TextFns \<Rightarrow> FS \<Rightarrow> string \<Rightarrow> PreloadDocSummary list \<Rightarrow> FS" where
  "annotateSuggestedDocsInLocalDir J T fs finalDir docs =
     (let tokenized = map (\<lambda>doc. (doc, tokenizeDoc J T fs finalDir doc)) docs;
          byDocId = buildByDocId tokenized
      in foldl (\<lambda>fs' doc. annotateDoc fs' finalDir byDocId doc) fs docs)"

text \<open>\<open>writePreloadBundleToLocal\<close>; the \<open>catch\<close> block is \<open>failWrite\<close>.\<close>

definition failWrite :: "FS \<Rightarrow> LocalWriteResult \<Rightarrow> error \<Rightarrow> FS \<times> LocalWriteResult" where
  "failWrite fs result e = (fs, result\<lparr>writeErrors := writeErrors result @ [e], enabled := False\<rparr>)"

definition writePreloadBundleToLocal ::
  "(FileData \<Rightarrow> string) \<Rightarrow> UrlApi \<Rightarrow> TextFns \<Rightarrow> timestamp \<Rightarrow> FS \<Rightarrow> PreloadBundle \<Rightarrow> LocalWriteResult
     \<Rightarrow> FS \<times> LocalWriteResult" where
  "writePreloadBundleToLocal J U T now fs bundle result =
     (if \<not> enabled result then (fs, result)
      else
        (let siteIndex = bundle_siteIndex bundle;
             slug = finalDirectoryNameFromBaseUrl U (site_baseUrl siteIndex);
             finalDir = pathJoin localRoot slug
         in case mkdir fs finalDir of
              Inl e \<Rightarrow> failWrite fs result e
            | Inr fs0 \<Rightarrow>
                (case writeFile fs0 (pathJoin finalDir (siteIndexFile result)) (SiteIndexFile siteIndex) of
                   Inl e \<Rightarrow> failWrite fs0 result e
                 | Inr fs1 \<Rightarrow>
                     (case writeDocs U T finalDir bundle
                             (buildUrlToLocalFile U (site_baseUrl siteIndex) (site_docs siteIndex))
                             (site_docs siteIndex) fs1 result of
                        (fs2, result2, Some e) \<Rightarrow> failWrite fs2 result2 e
                      | (fs2, result2, None) \<Rightarrow>
                          (case updateLocalSitesIndex fs2 now
                                  \<lparr> entry_slug = slug,
                                    entry_baseUrl = site_baseUrl siteIndex,
                                    entry_totalDocs = length (site_docs siteIndex),
                                    entry_updatedAt = now \<rparr> of
                             Inl e \<Rightarrow> failWrite fs2 result2 e
                           | Inr fs3 \<Rightarrow>
                               (annotateSuggestedDocsInLocalDir J T fs3 finalDir (site_docs siteIndex),
                                result2\<lparr>directory := finalDir\<rparr>))))))"


text \<open>The \<open>suggested\<close> list that a path of the store holds, if it holds a document index.\<close>

definition suggestedAt :: "FS \<Rightarrow> string \<Rightarrow> PreloadSuggestedDoc list option" where
  "suggestedAt fs p = (case files fs p of Some (DocIndexFile index) \<Rightarrow> idx_suggested index | _ \<Rightarrow> None)"

section \<open>Preload jobs (\<open>preload-job-manager.ts\<close>)\<close>

subsection \<open>Paths and targets (\<open>preload.ts\<close>)\<close>

text \<open>
  \<open>body.paths\<close> has type \<open>unknown\<close>: an array (whose elements are strings or not), a
  string, or anything else.
\<close>

datatype PathsInput = PathsArray "string option list" | PathsString string | PathsOther

definition normalizePath :: "string \<Rightarrow> string" where
  "normalizePath path =
     (if path = [] then []
      else if startsWith (toLowerCase path) ''http://'' \<or> startsWith (toLowerCase path) ''https://''
      then path
      else if startsWith path ''/'' then path
      else ''/'' @ path)"

fun dedupePathsFrom :: "string list \<Rightarrow> string list \<Rightarrow> string list" where
  "dedupePathsFrom seen [] = []"
| "dedupePathsFrom seen (path # rest) =
     (let normalized = normalizePath path
      in if normalized \<in> set seen then dedupePathsFrom seen rest
         else normalized # dedupePathsFrom (normalized # seen) rest)"

definition dedupePaths :: "string list \<Rightarrow> string list" where
  "dedupePaths paths = dedupePathsFrom [] paths"

definition parsePreloadPaths :: "PathsInput \<Rightarrow> string list" where
  "parsePreloadPaths input =
     (case input of
        PathsArray values \<Rightarrow>
          dedupePaths (filter (\<lambda>v. v \<noteq> []) (map trim (List.map_filter (\<lambda>v. v) values)))
      | PathsString s \<Rightarrow>
          dedupePaths (filter (\<lambda>part. part \<noteq> [])
            (map trim (splitOn (\<lambda>c. c = CHR 0x0A \<or> c = CHR '','' \<or> c = CHR 0x0D) s)))
      | PathsOther \<Rightarrow> [])"

definition normalizeMaxPages :: "JsNumber option \<Rightarrow> nat" where
  "normalizeMaxPages input =
     (case input of
        None \<Rightarrow> 200
      | Some NaN \<Rightarrow> 200
      | Some n \<Rightarrow> nat (clampFloor 2000 n))"

definition buildPreloadTargets :: "bool \<Rightarrow> JsNumber option \<Rightarrow> string list \<Rightarrow> string list" where
  "buildPreloadTargets includeBase maxPages paths =
     (let normalizedMax = normalizeMaxPages maxPages;
          merged = (if includeBase then [] # paths else paths);
          deduped = dedupePaths merged
      in take normalizedMax deduped)"

subsection \<open>Jobs and their snapshots\<close>

record JobDocument =
  jd_doc :: PreloadDocSummary
  jd_content :: string
  jd_index :: "PreloadDocIndex option"

record PreloadJobResult =
  res_baseUrl :: string
  res_discovered :: nat
  res_preloaded :: nat
  res_failed :: nat
  res_items :: "PreloadItem list"
  res_documents :: "JobDocument list"
  res_siteIndex :: PreloadSiteIndex
  res_docIndexes :: "string \<rightharpoonup> PreloadDocIndex"
  res_errors :: "(string \<times> string) list"
  res_diagnostics :: Diagnostics
  res_concurrency :: nat
  res_localOutput :: LocalWriteResult

record PreloadJob =
  job_id :: string
  job_status :: PreloadJobStatus
  job_createdAt :: timestamp
  job_updatedAt :: timestamp
  job_request :: JobRequest
  job_progress :: JobProgress
  job_result :: "PreloadJobResult option"
  job_error :: "string option"

text \<open>
  The table \<open>preloadJobs\<close> is a \<open>Map\<close>: a list of jobs in insertion order, one per id.
\<close>

definition jobDir :: "string \<Rightarrow> string" where
  "jobDir jobId = pathJoin localRoot jobId"

definition jobFile :: "string \<Rightarrow> string" where
  "jobFile jobId = pathJoin (jobDir jobId) ''job.json''"

definition jobsListFile :: string where
  "jobsListFile = pathJoin localRoot ''jobs.json''"

text \<open>
  \<open>writeJobSnapshot\<close>: the store as it is when the function ends, and the message of the
  exception if it throws. A \<open>jobs.json\<close> that does not parse gives the empty list; one
  that holds something else than an array makes \<open>list.filter\<close> throw.
\<close>

definition writeJobSnapshot :: "FS \<Rightarrow> PersistedJobSnapshot \<Rightarrow> FS \<times> error option" where
  "writeJobSnapshot fs snapshot =
     (case mkdir fs (jobDir (snap_id snapshot)) of
        Inl e \<Rightarrow> (fs, Some e)
      | Inr fs0 \<Rightarrow>
          (case writeFile fs0 (jobFile (snap_id snapshot)) (JobFile snapshot) of
             Inl e \<Rightarrow> (fs0, Some e)
           | Inr fs1 \<Rightarrow>
               (case (case readFile fs1 jobsListFile of
                        Inl e \<Rightarrow> Inr []
                      | Inr (JobsListFile entries) \<Rightarrow> Inr entries
                      | Inr (TextFile t) \<Rightarrow> Inr []
                      | Inr _ \<Rightarrow> Inl ''list.filter is not a function'') of
                  Inl e \<Rightarrow> (fs1, Some e)
                | Inr entries \<Rightarrow>
                    (let next = filter (\<lambda>entry. jl_id entry \<noteq> snap_id snapshot) entries
                                @ [\<lparr> jl_id = snap_id snapshot, jl_status = snap_status snapshot,
                                     jl_updatedAt = snap_updatedAt snapshot \<rparr>];
                         sorted = sort_key (\<lambda>entry. - int (jl_updatedAt entry)) next
                     in case writeFile fs1 jobsListFile (JobsListFile sorted) of
                          Inl e \<Rightarrow> (fs1, Some e)
                        | Inr fs2 \<Rightarrow> (fs2, None)))))"

text \<open>\<open>safeWriteJobSnapshot\<close> logs the exception and goes on.\<close>

definition safeWriteJobSnapshot :: "FS \<Rightarrow> PersistedJobSnapshot \<Rightarrow> FS" where
  "safeWriteJobSnapshot fs snapshot = fst (writeJobSnapshot fs snapshot)"

definition readJobSnapshot :: "FS \<Rightarrow> string \<Rightarrow> PersistedJobSnapshot option" where
  "readJobSnapshot fs jobId =
     (case readFile fs (jobFile jobId) of
        Inr (JobFile snapshot) \<Rightarrow> Some snapshot
      | _ \<Rightarrow> None)"

definition snapshotOf :: "PreloadJob \<Rightarrow> PersistedJobSnapshot" where
  "snapshotOf job =
     \<lparr> snap_id = job_id job, snap_status = job_status job, snap_createdAt = job_createdAt job,
       snap_updatedAt = job_updatedAt job, snap_request = job_request job,
       snap_progress = job_progress job, snap_error = job_error job \<rparr>"

subsection \<open>Pruning the table\<close>

definition ttlMs :: int where
  "ttlMs = 1000 * 60 * 60"

definition maxJobs :: nat where
  "maxJobs = 25"

text \<open>The first loop of \<open>prunePreloadJobs\<close>: what it deletes, and what it leaves.\<close>

definition expired :: "timestamp \<Rightarrow> PreloadJob \<Rightarrow> bool" where
  "expired now job = (ttlMs < int now - int (job_updatedAt job) \<and> job_status job \<noteq> Running)"

definition pruneExpired :: "timestamp \<Rightarrow> PreloadJob list \<Rightarrow> PreloadJob list" where
  "pruneExpired now jobs = filter (\<lambda>job. \<not> expired now job) jobs"

text \<open>The second loop, over the jobs sorted by \<open>updatedAt\<close>.\<close>

fun evictOldest :: "PreloadJob list \<Rightarrow> PreloadJob list \<Rightarrow> PreloadJob list" where
  "evictOldest [] jobs = jobs"
| "evictOldest (job # rest) jobs =
     (if length jobs \<le> maxJobs then jobs
      else if job_status job = Running then evictOldest rest jobs
      else evictOldest rest (filter (\<lambda>j. job_id j \<noteq> job_id job) jobs))"

definition prunePreloadJobs :: "timestamp \<Rightarrow> PreloadJob list \<Rightarrow> PreloadJob list" where
  "prunePreloadJobs now jobs =
     (let jobs1 = pruneExpired now jobs
      in if length jobs1 \<le> maxJobs then jobs1
         else evictOldest (sort_key job_updatedAt jobs1) jobs1)"

subsection \<open>The result of a job\<close>

datatype JobResultOutcome =
    StateCompleted PreloadJobResult
  | StateFailed string
  | StateUnfinished string
  | StateNotFound string

definition orDefault :: "string option \<Rightarrow> string \<Rightarrow> string" where
  \<comment> \<open>\<open>value || fallback\<close> for an optional string\<close>
  "orDefault v fallback = (case v of None \<Rightarrow> fallback | Some s \<Rightarrow> if s = [] then fallback else s)"

definition getPreloadJobResult ::
  "timestamp \<Rightarrow> PreloadJob list \<Rightarrow> FS \<Rightarrow> string \<Rightarrow> JobResultOutcome \<times> PreloadJob list" where
  "getPreloadJobResult now jobs fs jobId =
     (let jobs' = prunePreloadJobs now jobs
      in (case find (\<lambda>job. job_id job = jobId) jobs' of
            Some job \<Rightarrow>
              (if job_status job = Failed
               then StateFailed (orDefault (job_error job) ''Preload job failed.'')
               else if job_status job \<noteq> Completed \<or> job_result job = None
               then StateUnfinished ''Preload job is not completed yet.''
               else (case job_result job of
                       Some result \<Rightarrow> StateCompleted result
                     | None \<Rightarrow> StateUnfinished ''Preload job is not completed yet.''))
          | None \<Rightarrow>
              (case readJobSnapshot fs jobId of
                 Some persisted \<Rightarrow>
                   (if snap_status persisted = Failed
                    then StateFailed (orDefault (snap_error persisted) ''Preload job failed.'')
                    else if snap_status persisted = Completed
                    then StateNotFound
                           ''Preload job completed but its result has expired and is no longer available.''
                    else if snap_status persisted \<notin> set [Completed, Failed]
                    then StateUnfinished ''Preload job exists but is unfinished (from jobs.json list).''
                    else StateNotFound ''Preload job not found.'')
               | None \<Rightarrow> StateNotFound ''Preload job not found.''),
          jobs'))"

subsection \<open>Running a job\<close>

text \<open>
  The request body has fields of type \<open>unknown\<close>. \<open>body_maxPages\<close> is the number the
  code passes to \<open>normalizeMaxPages\<close> (the field itself or \<open>Number\<close> of it).
\<close>

record PreloadRequestBody =
  body_baseUrl :: "string option"
  body_paths :: PathsInput
  body_docsetType :: "string option"
  body_maxPages :: JsNumber
  body_maxDiscover :: "JsNumber option"
  body_maxDepth :: "JsNumber option"
  body_includeBase :: "bool option"
  body_includeIndexes :: "bool option"
  body_includeLinks :: "bool option"
  body_sameHostOnly :: "bool option"
  body_concurrency :: "JsNumber option"

record FetchedDoc =
  fetched_url :: string
  fetched_docsetType :: string
  fetched_markdown :: string

text \<open>
  What a run takes from outside: the platform, the clock, the fetch-and-convert pipeline
  \<open>fetchDocumentationMarkdown\<close> (answering a request by its number, base URL, path and
  docset type) and the scratch output of the job (\<open>createLocalWriteSession\<close>,
  \<open>writeScrapedDocJson\<close>, \<open>finalizeScrapedJsonl\<close>), given by their answers. The scratch
  files live under \<open>local/<job id>/docs-json\<close> and are not part of the modelled store.
\<close>

record JobEnv =
  discoverEnv :: DiscoverEnv
  textFns :: TextFns
  jsonText :: "FileData \<Rightarrow> string"
  clock :: timestamp
  docsetTypes :: "string list"
  fetchDocumentationMarkdown :: "nat \<Rightarrow> string \<Rightarrow> string option \<Rightarrow> string option \<Rightarrow> error + FetchedDoc"
  createLocalWriteSession :: "string \<Rightarrow> bool \<times> bool \<times> LocalWriteResult"
  writeScrapedDocJson :: "PreloadItem \<Rightarrow> bool \<times> string option"
  finalizeScrapedJsonl :: "string \<Rightarrow> bool \<times> string option \<times> string option"

definition clampOrDefault :: "JsNumber option \<Rightarrow> int \<Rightarrow> nat \<Rightarrow> nat" where
  \<comment> \<open>\<open>typeof v === "number" && Number.isFinite(v) ? Math.max(1, Math.min(hi, Math.floor(v))) : dflt\<close>\<close>
  "clampOrDefault v hi dflt = (case v of Some (Finite r) \<Rightarrow> nat (max 1 (min hi \<lfloor>r\<rfloor>)) | _ \<Rightarrow> dflt)"

definition pathOrSlash :: "string \<Rightarrow> string" where
  "pathOrSlash path = (if path = [] then ''/'' else path)"

record WorkerState =
  ws_items :: "PreloadItem list"
  ws_errors :: "(string \<times> string) list"
  ws_job :: PreloadJob
  ws_fs :: FS

text \<open>
  One turn of a worker's loop, for the target at \<open>index\<close>. The workers share the index
  counter, so every target is taken once; they are run here one after the other, in the
  order of the targets.
\<close>

definition processTarget ::
  "JobEnv \<Rightarrow> string \<Rightarrow> string option \<Rightarrow> nat \<Rightarrow> string \<Rightarrow> WorkerState \<Rightarrow> WorkerState" where
  "processTarget E baseUrl docsetType index path ws =
     (let ws1 =
            (case fetchDocumentationMarkdown E index baseUrl (if path = [] then None else Some path)
                    docsetType of
               Inl e \<Rightarrow>
                 ws\<lparr>ws_errors := ws_errors ws @ [(pathOrSlash path, e)],
                    ws_job := (ws_job ws)\<lparr>job_progress := (job_progress (ws_job ws))
                                 \<lparr>prog_failed := prog_failed (job_progress (ws_job ws)) + 1\<rparr>\<rparr>\<rparr>
             | Inr result \<Rightarrow>
                 (let item = \<lparr> item_path = pathOrSlash path, item_url = fetched_url result,
                                item_docsetType = fetched_docsetType result,
                                item_content = fetched_markdown result \<rparr>;
                      ws' = ws\<lparr>ws_items := ws_items ws @ [item]\<rparr>;
                      writeDoc = writeScrapedDocJson E item
                  in if \<not> fst writeDoc
                     then ws'\<lparr>ws_errors := ws_errors ws'
                                   @ [(pathOrSlash path, orDefault (snd writeDoc) ''Failed to write scraped JSON'')],
                              ws_job := (ws_job ws')\<lparr>job_progress := (job_progress (ws_job ws'))
                                 \<lparr>prog_failed := prog_failed (job_progress (ws_job ws')) + 1\<rparr>\<rparr>\<rparr>
                     else ws'\<lparr>ws_job := (ws_job ws')\<lparr>job_progress := (job_progress (ws_job ws'))
                                 \<lparr>prog_completed := prog_completed (job_progress (ws_job ws')) + 1\<rparr>\<rparr>\<rparr>));
          job' = (ws_job ws1)\<lparr>job_updatedAt := clock E\<rparr>
      in ws1\<lparr>ws_job := job', ws_fs := safeWriteJobSnapshot (ws_fs ws1) (snapshotOf job')\<rparr>)"

fun runWorkers ::
  "JobEnv \<Rightarrow> string \<Rightarrow> string option \<Rightarrow> nat \<Rightarrow> string list \<Rightarrow> WorkerState \<Rightarrow> WorkerState" where
  "runWorkers E baseUrl docsetType index [] ws = ws"
| "runWorkers E baseUrl docsetType index (path # rest) ws =
     runWorkers E baseUrl docsetType (index + 1) rest (processTarget E baseUrl docsetType index path ws)"

definition firstError :: "string list \<Rightarrow> string \<Rightarrow> string" where
  \<comment> \<open>\<open>errors[0] || fallback\<close>\<close>
  "firstError es fallback = (case es of [] \<Rightarrow> fallback | e # _ \<Rightarrow> if e = [] then fallback else e)"

definition jobDocuments :: "PreloadBundle \<Rightarrow> JobDocument list" where
  "jobDocuments bundle =
     map (\<lambda>doc. \<lparr> jd_doc = doc,
                   jd_content =
                     (case find (\<lambda>entry. item_url entry = doc_url doc \<and> item_path entry = doc_path doc)
                             (bundle_docs bundle) of
                        None \<Rightarrow> []
                      | Some source \<Rightarrow> item_content source),
                   jd_index = bundle_docIndexes bundle (doc_id doc) \<rparr>)
       (site_docs (bundle_siteIndex bundle))"

text \<open>
  What the run is asked to fetch: the discovery result and the list of targets, or the
  message of the exception that discovery throws.
\<close>

definition jobDiscovery :: "JobEnv \<Rightarrow> PreloadRequestBody \<Rightarrow> string \<Rightarrow> error + DiscoverResult" where
  "jobDiscovery E body baseUrl =
     discoverDocumentationUrls (discoverEnv E) baseUrl
       \<lparr> includeIndexes = Some (body_includeIndexes body \<noteq> Some False),
         includeLinks = Some (body_includeLinks body \<noteq> Some False),
         maxDiscover = Some (Finite (of_nat (clampOrDefault (body_maxDiscover body) 2000 300))),
         maxDepth = Some (Finite (of_nat (clampOrDefault (body_maxDepth body) 5 2))),
         sameHostOnly = Some (body_sameHostOnly body \<noteq> Some False) \<rparr>"

definition jobTargets :: "PreloadRequestBody \<Rightarrow> DiscoverResult \<Rightarrow> string list" where
  "jobTargets body discovery =
     (let userPaths = parsePreloadPaths (body_paths body);
          includeBase = (body_includeBase body \<noteq> Some False);
          maxPages = normalizeMaxPages (Some (body_maxPages body));
          discoveredUrls =
            (if includeBase
             then (case urls discovery of
                     [] \<Rightarrow> []
                   | first # _ \<Rightarrow> filter (\<lambda>url. url \<noteq> first) (urls discovery))
             else urls discovery)
      in buildPreloadTargets includeBase (Some (Finite (of_nat maxPages))) (userPaths @ discoveredUrls))"

definition jobDocsetType :: "JobEnv \<Rightarrow> PreloadRequestBody \<Rightarrow> string option" where
  "jobDocsetType E body =
     (case body_docsetType body of
        None \<Rightarrow> None
      | Some t \<Rightarrow> if t \<in> set (docsetTypes E) then Some t else None)"

text \<open>
  The \<open>try\<close> block of \<open>runPreloadJob\<close>: the job and the store as they are when the block
  ends, and the message of the exception when it ends by one. The first snapshot is
  written without the \<open>error\<close> field.
\<close>

definition runJobTry ::
  "JobEnv \<Rightarrow> PreloadRequestBody \<Rightarrow> string \<Rightarrow> PreloadJob \<Rightarrow> FS \<Rightarrow> PreloadJob \<times> FS \<times> error option" where
  "runJobTry E body baseUrl job fs =
     (let job1 = job\<lparr>job_status := Running, job_updatedAt := clock E\<rparr>;
          fs1 = safeWriteJobSnapshot fs ((snapshotOf job1)\<lparr>snap_error := None\<rparr>);
          concurrency = clampOrDefault (body_concurrency body) 12 4
      in case jobDiscovery E body baseUrl of
           Inl e \<Rightarrow> (job1, fs1, Some e)
         | Inr discovery \<Rightarrow>
             (let targets = jobTargets body discovery;
                  job2 = job1\<lparr>job_progress := (job_progress job1)
                                \<lparr>prog_discovered := length (urls discovery),
                                 prog_total := length targets\<rparr>,
                              job_updatedAt := clock E\<rparr>
              in if targets = [] then (job2, fs1, Some ''No targets found to preload.'')
                 else
                   (let docsetType = jobDocsetType E body;
                        localSession = createLocalWriteSession E (job_id job)
                    in if \<not> fst localSession \<or> \<not> fst (snd localSession)
                       then (job2, fs1,
                             Some (firstError (writeErrors (snd (snd localSession)))
                                     ''Failed to initialize local output''))
                       else
                         (let ws = runWorkers E baseUrl docsetType 0 targets
                                     \<lparr> ws_items = [], ws_errors = [], ws_job = job2, ws_fs = fs1 \<rparr>;
                              items = ws_items ws;
                              job3 = ws_job ws;
                              fs3 = ws_fs ws
                          in if items = []
                             then (job3, fs3,
                                   Some ''No pages could be preloaded. Check baseUrl and crawl settings.'')
                             else
                               (case buildPreloadBundle (urlApi (discoverEnv E)) (textFns E) (clock E)
                                       baseUrl items of
                                  Inl e \<Rightarrow> (job3, fs3, Some e)
                                | Inr bundle \<Rightarrow>
                                    (case writePreloadBundleToLocal (jsonText E) (urlApi (discoverEnv E))
                                            (textFns E) (clock E) fs3 bundle (snd (snd localSession)) of
                                       (fs4, localOutput) \<Rightarrow>
                                         if \<not> enabled localOutput
                                         then (job3, fs4,
                                               Some (firstError (writeErrors localOutput)
                                                       ''Failed to write local output''))
                                         else
                                           (case finalizeScrapedJsonl E (job_id job) of
                                              (ok, file, err) \<Rightarrow>
                                                if \<not> ok
                                                then (job3, fs4,
                                                      Some (orDefault err ''Failed to finalize scraped JSONL''))
                                                else
                                                  (let localOutput' = localOutput
                                                         \<lparr>jsonlFile := orDefault file (jsonlFile localOutput)\<rparr>;
                                                       job4 = job3
                                                         \<lparr>job_result := Some
                                                            \<lparr> res_baseUrl = baseUrl,
                                                              res_discovered = length (urls discovery),
                                                              res_preloaded = length items,
                                                              res_failed = length (ws_errors ws),
                                                              res_items = items,
                                                              res_documents = jobDocuments bundle,
                                                              res_siteIndex = bundle_siteIndex bundle,
                                                              res_docIndexes = bundle_docIndexes bundle,
                                                              res_errors = ws_errors ws,
                                                              res_diagnostics = diagnostics discovery,
                                                              res_concurrency = concurrency,
                                                              res_localOutput = localOutput' \<rparr>,
                                                          job_status := Completed,
                                                          job_updatedAt := clock E\<rparr>
                                                   in (job4, safeWriteJobSnapshot fs4 (snapshotOf job4),
                                                       None)))))))))"

text \<open>The \<open>catch\<close> block sets the job to failed and writes the snapshot.\<close>

definition runJob ::
  "JobEnv \<Rightarrow> PreloadRequestBody \<Rightarrow> string \<Rightarrow> PreloadJob \<Rightarrow> FS \<Rightarrow> PreloadJob \<times> FS" where
  "runJob E body baseUrl job fs =
     (case runJobTry E body baseUrl job fs of
        (job', fs', None) \<Rightarrow> (job', fs')
      | (job', fs', Some message) \<Rightarrow>
          (let failedJob = job'\<lparr>job_status := Failed, job_error := Some message,
                                 job_updatedAt := clock E\<rparr>
           in (failedJob, safeWriteJobSnapshot fs' (snapshotOf failedJob))))"

text \<open>
  \<open>runPreloadJob\<close>: it returns at once when the table has no job of that id or the base
  URL is not a string; otherwise the job in the table is the one the run leaves.
\<close>

definition runPreloadJob ::
  "JobEnv \<Rightarrow> PreloadJob list \<Rightarrow> FS \<Rightarrow> string \<Rightarrow> PreloadRequestBody \<Rightarrow> PreloadJob list \<times> FS" where
  "runPreloadJob E jobs fs jobId body =
     (case find (\<lambda>job. job_id job = jobId) jobs of
        None \<Rightarrow> (jobs, fs)
      | Some job \<Rightarrow>
          (case body_baseUrl body of
             None \<Rightarrow> (jobs, fs)
           | Some baseUrl \<Rightarrow>
               (case runJob E body baseUrl job fs of
                  (job', fs') \<Rightarrow> (map (\<lambda>j. if job_id j = jobId then job' else j) jobs, fs'))))"

text \<open>
  The message of the exception that ends a run with no fetched page: no target, no
  scratch output for the job, or no page among the targets.
\<close>

definition noPagesMessage :: "JobEnv \<Rightarrow> string \<Rightarrow> string list \<Rightarrow> string" where
  "noPagesMessage E jobId targets =
     (if targets = [] then ''No targets found to preload.''
      else if \<not> fst (createLocalWriteSession E jobId) \<or> \<not> fst (snd (createLocalWriteSession E jobId))
      then firstError (writeErrors (snd (snd (createLocalWriteSession E jobId))))
             ''Failed to initialize local output''
      else ''No pages could be preloaded. Check baseUrl and crawl settings.'')"

section \<open>Example inputs\<close>

definition exampleRequest :: JobRequest where
  "exampleRequest =
     \<lparr> req_baseUrl = ''https://docs.example.com'', req_format = ''json'', req_maxPages = 200,
       req_maxDiscover = 300, req_maxDepth = 2, req_concurrency = 4, req_saveLocal = True \<rparr>"

definition exampleJob :: "string \<Rightarrow> PreloadJobStatus \<Rightarrow> timestamp \<Rightarrow> PreloadJob" where
  "exampleJob jobId st t =
     \<lparr> job_id = jobId, job_status = st, job_createdAt = t, job_updatedAt = t,
       job_request = exampleRequest,
       job_progress = \<lparr> prog_discovered = 0, prog_total = 0, prog_completed = 0, prog_failed = 0 \<rparr>,
       job_result = None, job_error = None \<rparr>"

definition exampleSnapshot :: "string \<Rightarrow> PreloadJobStatus \<Rightarrow> timestamp \<Rightarrow> PersistedJobSnapshot" where
  "exampleSnapshot jobId st t = snapshotOf (exampleJob jobId st t)"

text \<open>A store that holds the given files and accepts every write.\<close>

definition storeOf :: "(string \<times> FileData) list \<Rightarrow> FS" where
  "storeOf entries = \<lparr> files = map_of entries, writable = (\<lambda>p. True) \<rparr>"

text \<open>
  A small URL class for the examples. It reads URLs of the form \<open>scheme://host/path\<close>
  with scheme \<open>http\<close> or \<open>https\<close>, resolves absolute URLs, absolute paths and plain
  relative names, and agrees with the platform on the URLs used below (lower-case host,
  no port, query, fragment or dot segments).
\<close>

definition simpleParseUrl :: "string \<Rightarrow> URL option" where
  "simpleParseUrl s =
     (let scheme = (if startsWith s ''https://'' then ''https:''
                    else if startsWith s ''http://'' then ''http:'' else []);
          rest = drop (length scheme + 2) s;
          host = takeWhile (\<lambda>c. c \<noteq> CHR ''/'') rest;
          path = dropWhile (\<lambda>c. c \<noteq> CHR ''/'') rest
      in if scheme = [] \<or> host = [] then None
         else Some \<lparr> url_protocol = scheme, url_hostname = host,
                     url_pathname = (if path = [] then ''/'' else path),
                     url_search = [], url_hash = [] \<rparr>)"

definition simpleHref :: "URL \<Rightarrow> string" where
  "simpleHref u = url_protocol u @ ''//'' @ url_hostname u @ url_pathname u @ url_search u @ url_hash u"

definition simpleResolve :: "string \<Rightarrow> string \<Rightarrow> URL option" where
  "simpleResolve rel base =
     (case simpleParseUrl rel of
        Some u \<Rightarrow> Some u
      | None \<Rightarrow>
          (case simpleParseUrl base of
             None \<Rightarrow> None
           | Some b \<Rightarrow>
               if startsWith rel ''/'' then Some (b\<lparr>url_pathname := rel\<rparr>)
               else Some (b\<lparr>url_pathname :=
                       rev (dropWhile (\<lambda>c. c \<noteq> CHR ''/'') (rev (url_pathname b))) @ rel\<rparr>)))"

definition simpleUrlApi :: UrlApi where
  "simpleUrlApi = \<lparr> parseUrl = simpleParseUrl, resolveUrl = simpleResolve, hrefOf = simpleHref \<rparr>"

text \<open>
  Markdown functions for the examples: the title is the text of a first line \<open># ...\<close>,
  tokens are the words of three letters or more; nothing else is extracted or rewritten.
\<close>

definition simpleTextFns :: TextFns where
  "simpleTextFns =
     \<lparr> extractMarkdownTitle =
         (\<lambda>content. if startsWith content ''# ''
                     then cleanText (takeWhile (\<lambda>c. c \<noteq> CHR 0x0A) (drop 2 content)) else []),
       extractMarkdownDescription = (\<lambda>content. []),
       extractMarkdownHeadings = (\<lambda>content. []),
       extractMarkdownLinks = (\<lambda>content sourceUrl. []),
       rewriteMarkdownLinksToLocal = (\<lambda>markdown sourceUrl urlToLocalFile. markdown),
       tokenizeForOverlap =
         (\<lambda>content title. filter (\<lambda>w. 3 \<le> length w) (splitOn isSpace (toLowerCase (title @ '' '' @ content)))) \<rparr>"



text \<open>A network on which every request fails, and one that serves a single page.\<close>

definition offlineEnv :: DiscoverEnv where
  "offlineEnv =
     \<lparr> urlApi = simpleUrlApi,
       fetchText = (\<lambda>n url accept. Inl ''fetch failed''),
       parseLinksFromHtml = (\<lambda>html sourceUrl. []),
       parseSitemapUrls = (\<lambda>xml sourceUrl. []),
       parseSearchIndexUrls = (\<lambda>raw sourceUrl. []) \<rparr>"

definition onePageEnv :: DiscoverEnv where
  "onePageEnv =
     \<lparr> urlApi = simpleUrlApi,
       fetchText = (\<lambda>n url accept. if url = ''https://docs.example.com/'' then Inr ''start page''
                                     else Inl ''Failed to fetch: 404 Not Found''),
       parseLinksFromHtml =
         (\<lambda>html sourceUrl. if html = ''start page''
            then [''https://docs.example.com/logo.png'', ''https://other.example.org/x'',
                  ''https://docs.example.com/guide'', ''https://docs.example.com/api'']
            else []),
       parseSitemapUrls = (\<lambda>xml sourceUrl. []),
       parseSearchIndexUrls = (\<lambda>raw sourceUrl. []) \<rparr>"

definition defaultOptions :: DiscoverOptions where
  "defaultOptions =
     \<lparr> includeIndexes = None, includeLinks = None, maxDiscover = None, maxDepth = None,
       sameHostOnly = None \<rparr>"

definition urlsOf :: "error + DiscoverResult \<Rightarrow> string list" where
  "urlsOf r = (case r of Inl e \<Rightarrow> [] | Inr result \<Rightarrow> urls result)"






text \<open>
  Two crawls of one site. The result of \<open>createLocalWriteSession\<close> for a job, an empty
  store, three pages (the first two share many words), and the store after a crawl has
  been built and written.
\<close>

definition sessionResult :: LocalWriteResult where
  "sessionResult =
     \<lparr> enabled = True, directory = ''local/job-1'', writtenDocs = 0, writtenIndexes = 0,
       siteIndexFile = ''site-index.json'', docsJsonDir = ''local/job-1/docs-json'',
       jsonlFile = ''scraped.jsonl'', writeErrors = [] \<rparr>"










text \<open>
  A job on a site that cannot be reached: discovery finds the base URL alone and every
  fetch fails. The store either accepts every write, or holds the snapshot written when
  the job was queued and refuses every write since.
\<close>

definition unreachableEnv :: JobEnv where
  "unreachableEnv =
     \<lparr> discoverEnv = offlineEnv, textFns = simpleTextFns, jsonText = (\<lambda>d. []), clock = 5,
       docsetTypes = [''generic'', ''mkdocs'', ''sphinx''],
       fetchDocumentationMarkdown = (\<lambda>n baseUrl path docsetType. Inl ''Failed to fetch documentation''),
       createLocalWriteSession = (\<lambda>jobId. (True, True, sessionResult)),
       writeScrapedDocJson = (\<lambda>item. (True, None)),
       finalizeScrapedJsonl = (\<lambda>jobId. (True, Some ''scraped.jsonl'', None)) \<rparr>"

definition exampleBody :: PreloadRequestBody where
  "exampleBody =
     \<lparr> body_baseUrl = Some ''https://docs.example.com'', body_paths = PathsOther,
       body_docsetType = None, body_maxPages = Finite 200, body_maxDiscover = None,
       body_maxDepth = None, body_includeBase = None, body_includeIndexes = None,
       body_includeLinks = None, body_sameHostOnly = None, body_concurrency = None \<rparr>"

definition refusingStore :: FS where
  "refusingStore =
     \<lparr> files = map_of [(jobFile ''job-1'', JobFile (exampleSnapshot ''job-1'' Queued 0))],
       writable = (\<lambda>p. False) \<rparr>"

definition runExample :: "FS \<Rightarrow> PreloadJob list \<times> FS" where
  "runExample fs = runPreloadJob unreachableEnv [exampleJob ''job-1'' Queued 0] fs ''job-1'' exampleBody"
section \<open>Auxiliary facts\<close>

lemma startsWith_refl: "startsWith s s"
  by (induction s) auto

lemma indexOfFrom_startsWith: "startsWith s q \<Longrightarrow> indexOfFrom s q i = int i"
  by (cases s; cases q) auto

lemma includes_startsWith: "startsWith s q \<Longrightarrow> includesStr s q"
  by (simp add: includesStr_def indexOf_def indexOfFrom_startsWith)

subsection \<open>Pruning the job table\<close>





subsection \<open>Sorting by a key without ties\<close>






subsection \<open>Discovery only appends admitted URLs, within the bound\<close>

lemma grows_refl: "grows U base sameHost maxD xs xs"
  by (simp add: grows_def)

lemma grows_trans:
  "grows U base sameHost maxD xs ys \<Longrightarrow> grows U base sameHost maxD ys zs \<Longrightarrow> grows U base sameHost maxD xs zs"
  by (auto simp: grows_def)

lemma admitUrls_grows:
  "length found < maxD \<Longrightarrow> grows U base sameHost maxD found (admitUrls U base sameHost maxD candidates found)"
proof (induction candidates arbitrary: found)
  case Nil
  show ?case by (simp add: grows_refl)
next
  case (Cons url rest)
  show ?case
  proof (cases "admissible U base sameHost url")
    case False
    with Cons show ?thesis by (auto simp: admissible_def)
  next
    case True
    have step: "grows U base sameHost maxD found (setAdd url found)"
      using True Cons.prems by (auto simp: grows_def setAdd_def)
    show ?thesis
    proof (cases "maxD \<le> length (setAdd url found)")
      case stop: True
      with True step show ?thesis by (simp add: admissible_def Let_def)
    next
      case False
      then have "length (setAdd url found) < maxD" by simp
      from grows_trans [OF step Cons.IH [OF this]] True False show ?thesis
        by (simp add: admissible_def Let_def)
    qed
  qed
qed

lemma tryDiscoverFromSitemap_grows:
  "length (discovered st) < maxD \<Longrightarrow>
     grows (urlApi E) base sameHost maxD (discovered st)
       (discovered (tryDiscoverFromSitemap E base maxD sameHost sitemapUrl st))"
  by (auto simp: tryDiscoverFromSitemap_def Let_def grows_refl split: sum.splits intro: admitUrls_grows)

lemma tryDiscoverFromSearchIndex_grows:
  "length (discovered st) < maxD \<Longrightarrow>
     grows (urlApi E) base sameHost maxD (discovered st)
       (discovered (tryDiscoverFromSearchIndex E base maxD sameHost indexUrl indexBase st))"
  by (auto simp: tryDiscoverFromSearchIndex_def Let_def grows_refl split: sum.splits intro: admitUrls_grows)

lemma sitemapLoop_grows:
  "sitemapLoop E base maxD sameHost indexBase paths st = Inr st' \<Longrightarrow>
     grows (urlApi E) base sameHost maxD (discovered st) (discovered st')"
proof (induction paths arbitrary: st)
  case Nil
  then show ?case by (simp add: grows_refl)
next
  case (Cons path rest)
  show ?case
  proof (cases "maxD \<le> length (discovered st)")
    case True
    with Cons.prems show ?thesis by (simp add: grows_refl)
  next
    case False
    with Cons.prems obtain u where
      r: "sitemapLoop E base maxD sameHost indexBase rest
            (tryDiscoverFromSitemap E base maxD sameHost (hrefOf (urlApi E) u) st) = Inr st'"
      by (auto split: option.splits)
    from False have "length (discovered st) < maxD" by simp
    from grows_trans [OF tryDiscoverFromSitemap_grows [OF this] Cons.IH [OF r]]
    show ?thesis .
  qed
qed

lemma searchIndexLoop_grows:
  "searchIndexLoop E base maxD sameHost indexBase paths st = Inr st' \<Longrightarrow>
     grows (urlApi E) base sameHost maxD (discovered st) (discovered st')"
proof (induction paths arbitrary: st)
  case Nil
  then show ?case by (simp add: grows_refl)
next
  case (Cons path rest)
  show ?case
  proof (cases "maxD \<le> length (discovered st)")
    case True
    with Cons.prems show ?thesis by (simp add: grows_refl)
  next
    case False
    with Cons.prems obtain u where
      r: "searchIndexLoop E base maxD sameHost indexBase rest
            (tryDiscoverFromSearchIndex E base maxD sameHost (hrefOf (urlApi E) u)
               (hrefOf (urlApi E) indexBase) st) = Inr st'"
      by (auto split: option.splits)
    from False have "length (discovered st) < maxD" by simp
    from grows_trans [OF tryDiscoverFromSearchIndex_grows [OF this] Cons.IH [OF r]]
    show ?thesis .
  qed
qed

lemma indexBasesLoop_grows:
  "indexBasesLoop E base maxD sameHost indexBases st = Inr st' \<Longrightarrow>
     grows (urlApi E) base sameHost maxD (discovered st) (discovered st')"
proof (induction indexBases arbitrary: st)
  case Nil
  then show ?case by (simp add: grows_refl)
next
  case (Cons indexBase rest)
  from Cons.prems obtain st1 st2 where
    a: "sitemapLoop E base maxD sameHost indexBase SITEMAP_PATHS st = Inr st1"
    and b: "searchIndexLoop E base maxD sameHost indexBase SEARCH_INDEX_PATHS st1 = Inr st2"
    and c: "indexBasesLoop E base maxD sameHost rest st2 = Inr st'"
    by (auto split: sum.splits)
  from grows_trans [OF grows_trans [OF sitemapLoop_grows [OF a] searchIndexLoop_grows [OF b]] Cons.IH [OF c]]
  show ?case .
qed

lemma addLinks_grows:
  "length (discovered st) < maxD \<Longrightarrow>
     grows U base sameHost maxD (discovered st)
       (discovered (addLinks U base sameHost maxD maxDep depth links st))"
proof (induction links arbitrary: st)
  case Nil
  show ?case by (simp add: grows_refl)
next
  case (Cons link rest)
  show ?case
  proof (cases "admissible U base sameHost link \<and> link \<notin> set (discovered st)")
    case False
    with Cons show ?thesis by (auto simp: admissible_def)
  next
    case True
    define st2 where "st2 = (if depth < maxDep
        then st\<lparr>discovered := discovered st @ [link], queue := queue st @ [(link, depth + 1)]\<rparr>
        else st\<lparr>discovered := discovered st @ [link]\<rparr>)"
    have d2: "discovered st2 = discovered st @ [link]"
      by (simp add: st2_def)
    have step: "grows U base sameHost maxD (discovered st) (discovered st2)"
      using True Cons.prems by (auto simp: grows_def d2)
    have unfold: "addLinks U base sameHost maxD maxDep depth (link # rest) st
        = (if maxD \<le> length (discovered st2) then st2
           else addLinks U base sameHost maxD maxDep depth rest st2)"
      using True by (simp add: admissible_def Let_def st2_def)
    show ?thesis
    proof (cases "maxD \<le> length (discovered st2)")
      case True
      with step unfold show ?thesis by simp
    next
      case False
      then have "length (discovered st2) < maxD" by simp
      from grows_trans [OF step Cons.IH [OF this]] unfold False show ?thesis
        by simp
    qed
  qed
qed

lemma crawlStep_grows:
  "length (discovered st) < maxD \<Longrightarrow>
     grows (urlApi E) base sameHost maxD (discovered st)
       (discovered (crawlStep E base sameHost maxD maxDep st))"
  by (auto simp: crawlStep_def Let_def grows_refl split: list.splits sum.splits intro!: addLinks_grows [THEN grows_trans [rotated]] grows_refl)

lemma crawlLoop_grows:
  "grows (urlApi E) base sameHost maxD (discovered st)
     (discovered (crawlLoop E base sameHost maxD maxDep st))"
proof (induction E base sameHost maxD maxDep st rule: crawlLoop.induct)
  case (1 E base sameHost maxD maxDep st)
  show ?case
  proof (cases "queue st \<noteq> [] \<and> length (discovered st) < maxD")
    case True
    from grows_trans [OF crawlStep_grows "1.IH" [OF True]] True
    show ?thesis
      by (subst crawlLoop.simps) simp
  next
    case False
    then show ?thesis
      by (subst crawlLoop.simps) (auto simp: grows_refl)
  qed
qed

lemma normalizePositiveInt_range:
  "1 \<le> dflt \<Longrightarrow> dflt \<le> nat hi \<Longrightarrow> 1 \<le> hi \<Longrightarrow>
     1 \<le> normalizePositiveInt v dflt hi \<and> normalizePositiveInt v dflt hi \<le> nat hi"
proof (cases v)
  case None
  then show "1 \<le> dflt \<Longrightarrow> dflt \<le> nat hi \<Longrightarrow> 1 \<le> hi \<Longrightarrow> ?thesis"
    by (simp add: normalizePositiveInt_def)
next
  case (Some n)
  then show "1 \<le> dflt \<Longrightarrow> dflt \<le> nat hi \<Longrightarrow> 1 \<le> hi \<Longrightarrow> ?thesis"
    by (cases n) (auto simp: normalizePositiveInt_def)
qed

subsection \<open>Substrings and the search loops\<close>

lemma startsWith_iff: "startsWith s q \<longleftrightarrow> (\<exists>b. s = q @ b)"
  by (induction s q rule: startsWith.induct) auto

lemma indexOfFrom_found:
  "indexOfFrom s q i = int k \<Longrightarrow> i \<le> k \<and> startsWith (drop (k - i) s) q \<and> (\<forall>j<k - i. \<not> startsWith (drop j s) q)"
proof (induction s arbitrary: i)
  case Nil
  then show ?case by (auto split: if_splits)
next
  case (Cons c cs)
  show ?case
  proof (cases "startsWith (c # cs) q")
    case True
    with Cons.prems show ?thesis by simp
  next
    case False
    with Cons.prems have r: "indexOfFrom cs q (Suc i) = int k" by simp
    from Cons.IH [OF r] have k: "Suc i \<le> k" and s: "startsWith (drop (k - Suc i) cs) q"
      and n: "\<forall>j<k - Suc i. \<not> startsWith (drop j cs) q" by auto
    from k have eq: "k - i = Suc (k - Suc i)" by simp
    have "\<not> startsWith (drop j (c # cs)) q" if "j < k - i" for j
      using that False n eq by (cases j) auto
    with k s eq show ?thesis by auto
  qed
qed

lemma indexOfFrom_none:
  "indexOfFrom s q i = - 1 \<Longrightarrow> \<forall>j\<le>length s. \<not> startsWith (drop j s) q"
proof (induction s arbitrary: i)
  case Nil
  then show ?case by (cases q) (auto split: if_splits)
next
  case (Cons c cs)
  from Cons.prems have no: "\<not> startsWith (c # cs) q" and r: "indexOfFrom cs q (Suc i) = - 1"
    by (auto split: if_splits)
  from Cons.IH [OF r] no show ?case
    by (auto simp: less_Suc_eq_0_disj le_Suc_eq drop_Cons split: nat.splits)
qed

lemma indexOfFrom_range: "indexOfFrom s q i = - 1 \<or> (\<exists>k. indexOfFrom s q i = int k)"
  by (induction s arbitrary: i) auto

lemma includesStr_iff: "includesStr s q \<longleftrightarrow> (\<exists>a b. s = a @ q @ b)"
proof
  assume "includesStr s q"
  then obtain k where "indexOfFrom s q 0 = int k"
    using indexOfFrom_range [of s q 0] by (auto simp: includesStr_def indexOf_def)
  from indexOfFrom_found [OF this] obtain b where "drop k s = q @ b"
    by (auto simp: startsWith_iff)
  then have "s = take k s @ q @ b"
    by (metis append_take_drop_id)
  then show "\<exists>a b. s = a @ q @ b" by blast
next
  assume "\<exists>a b. s = a @ q @ b"
  then obtain a b where s: "s = a @ q @ b" by blast
  show "includesStr s q"
  proof (rule ccontr)
    assume "\<not> includesStr s q"
    then have "indexOfFrom s q 0 = - 1"
      using indexOfFrom_range [of s q 0] by (auto simp: includesStr_def indexOf_def)
    from indexOfFrom_none [OF this] have "length a \<le> length s \<longrightarrow> \<not> startsWith (drop (length a) s) q"
      by blast
    then have "\<not> startsWith (drop (length a) s) q"
      using s by simp
    with s show False by (simp add: startsWith_iff)
  qed
qed









subsection \<open>File names and paths\<close>









subsection \<open>What a write of a bundle keeps\<close>



lemma writeFile_writable: "writeFile fs p d = Inr fs' \<Longrightarrow> writable fs' = writable fs"
  by (auto simp: writeFile_def split: if_splits)

lemma suggestedAt_cong: "files fs' p = files fs p \<Longrightarrow> suggestedAt fs' p = suggestedAt fs p"
  by (simp add: suggestedAt_def)















subsection \<open>Snapshots and workers of a job\<close>

lemma writeJobSnapshot_writable:
  "writable (fst (writeJobSnapshot fs s)) = writable fs"
  by (auto simp: writeJobSnapshot_def mkdir_def writeFile_def Let_def
      split: sum.splits FileData.splits if_splits)

lemma safeWriteJobSnapshot_writable:
  "writable (safeWriteJobSnapshot fs s) = writable fs"
  by (simp add: safeWriteJobSnapshot_def writeJobSnapshot_writable)

lemma jobsListFile_not_jobFile: "jobsListFile \<noteq> jobFile jobId"
  by (cases jobId) (simp_all add: jobsListFile_def jobFile_def jobDir_def pathJoin_def localRoot_def)

lemma safeWriteJobSnapshot_read:
  assumes "writable fs (jobDir (snap_id s))" "writable fs (jobFile (snap_id s))"
  shows "readJobSnapshot (safeWriteJobSnapshot fs s) (snap_id s) = Some s"
  using assms jobsListFile_not_jobFile [of "snap_id s"]
  by (auto simp: safeWriteJobSnapshot_def writeJobSnapshot_def mkdir_def writeFile_def Let_def
      readJobSnapshot_def readFile_def
      split: sum.splits FileData.splits if_splits option.splits)

lemma safeWriteJobSnapshot_refused:
  assumes "\<not> (writable fs (jobDir (snap_id s)) \<and> writable fs (jobFile (snap_id s)))"
  shows "safeWriteJobSnapshot fs s = fs"
  using assms
  by (auto simp: safeWriteJobSnapshot_def writeJobSnapshot_def mkdir_def writeFile_def)

lemma processTarget_job:
  "job_id (ws_job (processTarget E baseUrl docsetType index path ws)) = job_id (ws_job ws) \<and>
   job_status (ws_job (processTarget E baseUrl docsetType index path ws)) = job_status (ws_job ws) \<and>
   job_result (ws_job (processTarget E baseUrl docsetType index path ws)) = job_result (ws_job ws) \<and>
   job_error (ws_job (processTarget E baseUrl docsetType index path ws)) = job_error (ws_job ws) \<and>
   writable (ws_fs (processTarget E baseUrl docsetType index path ws)) = writable (ws_fs ws)"
  by (simp add: processTarget_def Let_def safeWriteJobSnapshot_writable split: sum.splits)

lemma processTarget_refused:
  assumes "\<not> (writable (ws_fs ws) (jobDir (job_id (ws_job ws))) \<and> writable (ws_fs ws) (jobFile (job_id (ws_job ws))))"
  shows "ws_fs (processTarget E baseUrl docsetType index path ws) = ws_fs ws"
  using assms
  by (simp add: processTarget_def Let_def safeWriteJobSnapshot_refused snapshotOf_def split: sum.splits)

lemma processTarget_failed_fetch:
  assumes "isl (fetchDocumentationMarkdown E index baseUrl (if path = [] then None else Some path) docsetType)"
  shows "ws_items (processTarget E baseUrl docsetType index path ws) = ws_items ws"
proof -
  from assms obtain e where
    "fetchDocumentationMarkdown E index baseUrl (if path = [] then None else Some path) docsetType = Inl e"
    by (cases "fetchDocumentationMarkdown E index baseUrl (if path = [] then None else Some path) docsetType")
      simp_all
  then show ?thesis
    unfolding processTarget_def Let_def by simp
qed

lemma runWorkers_job:
  "job_id (ws_job (runWorkers E baseUrl docsetType index targets ws)) = job_id (ws_job ws) \<and>
   job_status (ws_job (runWorkers E baseUrl docsetType index targets ws)) = job_status (ws_job ws) \<and>
   job_result (ws_job (runWorkers E baseUrl docsetType index targets ws)) = job_result (ws_job ws) \<and>
   job_error (ws_job (runWorkers E baseUrl docsetType index targets ws)) = job_error (ws_job ws) \<and>
   writable (ws_fs (runWorkers E baseUrl docsetType index targets ws)) = writable (ws_fs ws)"
  by (induction targets arbitrary: index ws) (simp_all add: processTarget_job)

lemma runWorkers_refused:
  assumes "\<not> (writable (ws_fs ws) (jobDir (job_id (ws_job ws))) \<and> writable (ws_fs ws) (jobFile (job_id (ws_job ws))))"
  shows "ws_fs (runWorkers E baseUrl docsetType index targets ws) = ws_fs ws"
  using assms
proof (induction targets arbitrary: index ws)
  case Nil
  then show ?case by simp
next
  case (Cons path rest)
  let ?ws = "processTarget E baseUrl docsetType index path ws"
  from Cons.prems have "ws_fs ?ws = ws_fs ws"
    by (rule processTarget_refused)
  moreover from this Cons.prems
  have "\<not> (writable (ws_fs ?ws) (jobDir (job_id (ws_job ?ws))) \<and> writable (ws_fs ?ws) (jobFile (job_id (ws_job ?ws))))"
    by (simp add: processTarget_job)
  ultimately show ?case
    using Cons.IH [of ?ws "index + 1"] by simp
qed

lemma runWorkers_failed_fetches:
  assumes "\<forall>i < length targets.
      isl (fetchDocumentationMarkdown E (index + i) baseUrl
             (if targets ! i = [] then None else Some (targets ! i)) docsetType)"
  shows "ws_items (runWorkers E baseUrl docsetType index targets ws) = ws_items ws"
  using assms
proof (induction targets arbitrary: index ws)
  case Nil
  then show ?case by simp
next
  case (Cons path rest)
  from Cons.prems [rule_format, of 0]
  have first: "isl (fetchDocumentationMarkdown E index baseUrl (if path = [] then None else Some path) docsetType)"
    by (simp cong: if_cong)
  have "\<forall>i < length rest.
      isl (fetchDocumentationMarkdown E (index + 1 + i) baseUrl
             (if rest ! i = [] then None else Some (rest ! i)) docsetType)"
  proof (intro allI impI)
    fix i assume "i < length rest"
    with Cons.prems [rule_format, of "Suc i"] show
      "isl (fetchDocumentationMarkdown E (index + 1 + i) baseUrl
             (if rest ! i = [] then None else Some (rest ! i)) docsetType)"
      by (simp cong: if_cong)
  qed
  from Cons.IH [OF this] processTarget_failed_fetch [OF first] show ?case
    by simp
qed

lemma firstError_nonempty: "fallback \<noteq> [] \<Longrightarrow> firstError es fallback \<noteq> []"
  by (simp add: firstError_def split: list.splits)

lemma find_replaced:
  assumes "find (\<lambda>j. job_id j = jobId) jobs = Some job" "job_id job' = jobId"
  shows "find (\<lambda>j. job_id j = jobId) (map (\<lambda>j. if job_id j = jobId then job' else j) jobs) = Some job'"
  using assms by (induction jobs) (auto split: if_splits)

lemma runJobTry_no_pages:
  assumes disc: "jobDiscovery E body baseUrl = Inr discovery"
    and targets: "jobTargets body discovery = targets"
    and none: "\<forall>i < length targets.
        isl (fetchDocumentationMarkdown E i baseUrl
               (if targets ! i = [] then None else Some (targets ! i)) (jobDocsetType E body))"
  shows "\<exists>job3 fs3. runJobTry E body baseUrl job fs = (job3, fs3, Some (noPagesMessage E (job_id job) targets)) \<and>
      job_id job3 = job_id job \<and> job_status job3 = Running \<and> job_result job3 = job_result job \<and>
      writable fs3 = writable fs \<and>
      (\<not> (writable fs (jobDir (job_id job)) \<and> writable fs (jobFile (job_id job))) \<longrightarrow> fs3 = fs)"
proof -
  define job1 where "job1 = job\<lparr>job_status := Running, job_updatedAt := clock E\<rparr>"
  define fs1 where "fs1 = safeWriteJobSnapshot fs ((snapshotOf job1)\<lparr>snap_error := None\<rparr>)"
  define job2 where "job2 = job1\<lparr>job_progress := (job_progress job1)
      \<lparr>prog_discovered := length (urls discovery), prog_total := length targets\<rparr>,
      job_updatedAt := clock E\<rparr>"
  define ws where "ws = runWorkers E baseUrl (jobDocsetType E body) 0 targets
      \<lparr> ws_items = [], ws_errors = [], ws_job = job2, ws_fs = fs1 \<rparr>"
  have w1: "writable fs1 = writable fs"
    by (simp add: fs1_def safeWriteJobSnapshot_writable)
  have r1: "fs1 = fs" if "\<not> (writable fs (jobDir (job_id job)) \<and> writable fs (jobFile (job_id job)))"
    unfolding fs1_def using that
    by (intro safeWriteJobSnapshot_refused) (simp add: snapshotOf_def job1_def)
  have j2: "job_id job2 = job_id job" "job_status job2 = Running" "job_result job2 = job_result job"
    by (simp_all add: job2_def job1_def)
  have items: "ws_items ws = []"
    unfolding ws_def using runWorkers_failed_fetches [of targets E 0 baseUrl "jobDocsetType E body"] none
    by simp
  have wsj: "job_id (ws_job ws) = job_id job" "job_status (ws_job ws) = Running"
    "job_result (ws_job ws) = job_result job" "writable (ws_fs ws) = writable fs"
    unfolding ws_def using j2 w1 by (simp_all add: runWorkers_job)
  have wsr: "ws_fs ws = fs" if "\<not> (writable fs (jobDir (job_id job)) \<and> writable fs (jobFile (job_id job)))"
  proof -
    have "ws_fs ws = fs1"
      unfolding ws_def using that w1 j2 by (intro runWorkers_refused [THEN trans]) simp_all
    with r1 [OF that] show ?thesis
      by simp
  qed
  have run: "runJobTry E body baseUrl job fs =
      (if targets = [] then (job2, fs1, Some ''No targets found to preload.'')
       else if \<not> fst (createLocalWriteSession E (job_id job)) \<or> \<not> fst (snd (createLocalWriteSession E (job_id job)))
       then (job2, fs1, Some (firstError (writeErrors (snd (snd (createLocalWriteSession E (job_id job)))))
                                ''Failed to initialize local output''))
       else (ws_job ws, ws_fs ws, Some ''No pages could be preloaded. Check baseUrl and crawl settings.''))"
    using items unfolding runJobTry_def Let_def disc sum.case targets ws_def job2_def fs1_def job1_def
    by simp
  show ?thesis
    unfolding run noPagesMessage_def using j2 w1 r1 wsj wsr by auto
qed

lemma noPagesMessage_nonempty: "noPagesMessage E jobId targets \<noteq> []"
  by (simp add: noPagesMessage_def firstError_nonempty)
section \<open>Claims\<close>

text \<open>
  C9. The score components of \<open>computeSearchScore\<close> add up rather than exclude each
  other: a title that equals the query (after lower-casing) gets 120 + 80 + 40 = 240 from
  the title alone, and a content match adds 20 plus a proximity bonus between 0 and 20, so
  at most 40.
\<close>

theorem computeSearchScore_cumulative_capped:
  "(toLowerCase title = query \<longrightarrow> computeSearchScore title query (- 1) = 240) \<and>
   computeSearchScore title query contentIndex \<le> computeSearchScore title query (- 1) + 40 \<and>
   (0 \<le> contentIndex \<longrightarrow>
      computeSearchScore title query contentIndex =
        computeSearchScore title query (- 1) + 20 + max 0 (20 - contentIndex div 400))"
proof -
  have title: "computeSearchScore title query (- 1) = 240" if "toLowerCase title = query"
    using that startsWith_refl [of query] includes_startsWith [of query query]
    by (simp add: computeSearchScore_def)
  have bonus: "max 0 (20 - contentIndex div 400) \<le> 20" if "0 \<le> contentIndex"
    using that by (simp add: pos_imp_zdiv_nonneg_iff)
  have split: "computeSearchScore title query contentIndex =
      computeSearchScore title query (- 1) + 20 + max 0 (20 - contentIndex div 400)"
    if "0 \<le> contentIndex"
    using that by (simp add: computeSearchScore_def Let_def)
  have none: "computeSearchScore title query contentIndex = computeSearchScore title query (- 1)"
    if "\<not> 0 \<le> contentIndex"
    using that by (simp add: computeSearchScore_def Let_def)
  have cap: "computeSearchScore title query contentIndex
      \<le> computeSearchScore title query (- 1) + 40"
  proof (cases "0 \<le> contentIndex")
    case True
    with split bonus show ?thesis by simp
  next
    case False
    with none show ?thesis by simp
  qed
  from title cap split show ?thesis by blast
qed

theorem computeSearchScore_cumulative_capped_witness:
  "toLowerCase ''API'' = ''api'' \<and> computeSearchScore ''API'' ''api'' (- 1) = 240 \<and>
   computeSearchScore ''API'' ''api'' 0 = 280"
proof -
  have h: "toLowerCase ''API'' = ''api''"
    by (simp add: toLowerCase_def lowerChar_def)
  from computeSearchScore_cumulative_capped [of "''API''" "''api''" 0] h
  show ?thesis by simp
qed




text \<open>
  C10. When the table (after pruning) has no job of the id and a snapshot of it is on
  disk: a snapshot with status \<open>completed\<close> gives \<open>not_found\<close> with the result-expired
  message, a snapshot with status \<open>queued\<close> or \<open>running\<close> gives \<open>unfinished\<close>, and the answer
  is never \<open>completed\<close>: the result of a job is not part of a snapshot.
\<close>

theorem getPreloadJobResult_evicted:
  assumes "find (\<lambda>job. job_id job = jobId) (prunePreloadJobs now jobs) = None"
    and "readJobSnapshot fs jobId = Some persisted"
  shows "(snap_status persisted = Completed \<longrightarrow>
            fst (getPreloadJobResult now jobs fs jobId)
              = StateNotFound ''Preload job completed but its result has expired and is no longer available.'') \<and>
         (snap_status persisted = Queued \<or> snap_status persisted = Running \<longrightarrow>
            fst (getPreloadJobResult now jobs fs jobId)
              = StateUnfinished ''Preload job exists but is unfinished (from jobs.json list).'') \<and>
         (\<forall>result. fst (getPreloadJobResult now jobs fs jobId) \<noteq> StateCompleted result)"
  using assms by (cases "snap_status persisted") (simp_all add: getPreloadJobResult_def Let_def)

theorem getPreloadJobResult_evicted_witness:
  "find (\<lambda>job. job_id job = ''j1'') (prunePreloadJobs 0 []) = None \<and>
   readJobSnapshot (storeOf [(''local/j1/job.json'', JobFile (exampleSnapshot ''j1'' Completed 0))]) ''j1''
     = Some (exampleSnapshot ''j1'' Completed 0) \<and>
   fst (getPreloadJobResult 0 []
          (storeOf [(''local/j1/job.json'', JobFile (exampleSnapshot ''j1'' Completed 0))]) ''j1'')
     = StateNotFound ''Preload job completed but its result has expired and is no longer available.''"
proof -
  let ?fs = "storeOf [(''local/j1/job.json'', JobFile (exampleSnapshot ''j1'' Completed 0))]"
  have a: "find (\<lambda>job. job_id job = ''j1'') (prunePreloadJobs 0 []) = None"
    by (simp add: prunePreloadJobs_def pruneExpired_def maxJobs_def)
  have b: "readJobSnapshot ?fs ''j1'' = Some (exampleSnapshot ''j1'' Completed 0)"
    by (simp add: readJobSnapshot_def readFile_def storeOf_def jobFile_def jobDir_def pathJoin_def
        localRoot_def)
  have c: "snap_status (exampleSnapshot ''j1'' Completed 0) = Completed"
    by (simp add: exampleSnapshot_def snapshotOf_def exampleJob_def)
  from getPreloadJobResult_evicted [OF a b] a b c show ?thesis
    by simp
qed




text \<open>
  C1 (as amended). When \<open>discoverDocumentationUrls\<close> returns, the number of URLs is at most
  \<open>maxDiscover\<close> clamped to 1..2000 (300 by default); the first URL is the normalized base
  URL, which is admitted as it is; every other URL passed the scheme and host filter and
  has no path extension of the non-document blocklist.
\<close>

theorem discover_bounded_and_filtered:
  assumes "discoverDocumentationUrls E baseUrl options = Inr r"
  shows "length (urls r) \<le> normalizePositiveInt (maxDiscover options) 300 2000 \<and>
         1 \<le> normalizePositiveInt (maxDiscover options) 300 2000 \<and>
         normalizePositiveInt (maxDiscover options) 300 2000 \<le> 2000 \<and>
         (\<exists>normalizedBase base others.
            normalizeUrl (urlApi E) baseUrl = Inr normalizedBase \<and>
            parseUrl (urlApi E) normalizedBase = Some base \<and>
            urls r = normalizedBase # others \<and>
            (\<forall>u\<in>set others.
               isAllowedUrl (urlApi E) u base (sameHostOnly options \<noteq> Some False) \<and>
               isLikelyDocumentationPage (urlApi E) u))"
proof -
  define maxD where "maxD = normalizePositiveInt (maxDiscover options) 300 2000"
  define maxDep where "maxDep = normalizePositiveInt (maxDepth options) 2 5"
  define sameHost where "sameHost = (sameHostOnly options \<noteq> Some False)"
  have range: "1 \<le> maxD \<and> maxD \<le> 2000"
    using normalizePositiveInt_range [of 300 2000 "maxDiscover options"] by (simp add: maxD_def)
  obtain normalizedBase where nb: "normalizeUrl (urlApi E) baseUrl = Inr normalizedBase"
    using assms
    by (cases "normalizeUrl (urlApi E) baseUrl") (simp_all add: discoverDocumentationUrls_def Let_def)
  obtain base where pb: "parseUrl (urlApi E) normalizedBase = Some base"
    using assms nb
    by (cases "parseUrl (urlApi E) normalizedBase") (simp_all add: discoverDocumentationUrls_def Let_def)
  define st0 where "st0 = \<lparr> discovered = [normalizedBase], seenCrawl = [], queue = [(normalizedBase, 0)],
    diag = \<lparr> attempted = [], fetched = [], errors = [] \<rparr> \<rparr>"
  define phase1 where "phase1 =
    (if includeIndexes options \<noteq> Some False
     then (case buildIndexBaseCandidates (urlApi E) base of
             Inl e \<Rightarrow> Inl e
           | Inr indexBases \<Rightarrow> indexBasesLoop E base maxD sameHost indexBases st0)
     else Inr st0)"
  have unfolded: "discoverDocumentationUrls E baseUrl options =
      (case phase1 of
         Inl e \<Rightarrow> Inl e
       | Inr st1 \<Rightarrow>
           (let st2 = (if includeLinks options \<noteq> Some False
                       then crawlLoop E base sameHost maxD maxDep st1 else st1)
            in Inr \<lparr> urls = discovered st2, diagnostics = diag st2 \<rparr>))"
    unfolding discoverDocumentationUrls_def phase1_def st0_def maxD_def maxDep_def sameHost_def Let_def
    using nb pb by simp
  obtain st1 where p1: "phase1 = Inr st1"
    using assms unfolded by (cases phase1) simp_all
  have res: "urls r = discovered (if includeLinks options \<noteq> Some False
                       then crawlLoop E base sameHost maxD maxDep st1 else st1)"
    using assms unfolded p1 by (auto simp: Let_def)
  have g1: "grows (urlApi E) base sameHost maxD [normalizedBase] (discovered st1)"
  proof (cases "includeIndexes options \<noteq> Some False")
    case True
    with p1 obtain indexBases where "indexBasesLoop E base maxD sameHost indexBases st0 = Inr st1"
      by (auto simp: phase1_def split: sum.splits)
    from indexBasesLoop_grows [OF this] show ?thesis
      by (simp add: st0_def)
  next
    case False
    with p1 have "st1 = st0" by (simp add: phase1_def)
    then show ?thesis by (simp add: st0_def grows_refl)
  qed
  have g2: "grows (urlApi E) base sameHost maxD [normalizedBase] (urls r)"
    using res g1 grows_trans [OF g1 crawlLoop_grows [of E base sameHost maxD st1 maxDep]]
    by (cases "includeLinks options \<noteq> Some False") simp_all
  from g2 range obtain added where
    "urls r = normalizedBase # added" "list_all (admissible (urlApi E) base sameHost) added"
    "length (urls r) \<le> maxD"
    by (auto simp: grows_def)
  with nb pb range show ?thesis
    unfolding maxD_def [symmetric] sameHost_def [symmetric]
    by (auto simp: list_all_iff admissible_def)
qed

theorem discover_bounded_and_filtered_witness:
  "discoverDocumentationUrls onePageEnv ''https://docs.example.com/''
     (defaultOptions\<lparr>includeIndexes := Some False, maxDiscover := Some (Finite 2)\<rparr>)
     = Inr \<lparr> urls = [''https://docs.example.com/'', ''https://docs.example.com/guide''],
             diagnostics = \<lparr> attempted = [''https://docs.example.com/''],
                             fetched = [''https://docs.example.com/''], errors = [] \<rparr> \<rparr> \<and>
   normalizePositiveInt (Some (Finite 2)) 300 2000 = 2 \<and>
   isLikelyDocumentationPage simpleUrlApi ''https://docs.example.com/guide''"
proof -
  have run: "discoverDocumentationUrls onePageEnv ''https://docs.example.com/''
     (defaultOptions\<lparr>includeIndexes := Some False, maxDiscover := Some (Finite 2)\<rparr>)
     = Inr \<lparr> urls = [''https://docs.example.com/'', ''https://docs.example.com/guide''],
             diagnostics = \<lparr> attempted = [''https://docs.example.com/''],
                             fetched = [''https://docs.example.com/''], errors = [] \<rparr> \<rparr>"
    by code_simp
  have api: "urlApi onePageEnv = simpleUrlApi"
    by (simp add: onePageEnv_def)
  have two: "normalizePositiveInt (Some (Finite 2)) 300 2000 = 2"
    by (simp add: normalizePositiveInt_def)
  from discover_bounded_and_filtered [OF run] run api two show ?thesis
    by (auto simp: defaultOptions_def)
qed

text \<open>
  C1 (as stated) fails for the seeded base URL: it is added to the set without the
  extension filter. With the default options and no page reachable, discovery of
  \<open>https://example.com/logo.png\<close> returns that URL, whose extension is on the blocklist.
\<close>

theorem discover_returns_blocklisted_base:
  "urlsOf (discoverDocumentationUrls offlineEnv ''https://example.com/logo.png'' defaultOptions)
     = [''https://example.com/logo.png''] \<and>
   \<not> isLikelyDocumentationPage (urlApi offlineEnv) ''https://example.com/logo.png''"
  by code_simp









text \<open>
  C5 (as amended). A job of the table is run with a base URL, discovery returns, and the
  fetch of every target fails (or there is no target). Then the \<open>try\<close> block ends by an
  exception while the job is still \<open>running\<close>, and the job that the run leaves in the table
  is \<open>failed\<close>, has no result, and carries the message of that exception, which is not
  empty: no target, no scratch output, or no page. The job is never \<open>completed\<close>. The last
  action of the run is the write of the snapshot of the failed job: when the store accepts
  the writes to the directory and the file of the job, the stored snapshot is that of the
  failed job; when it refuses them, the failure is swallowed and the store is left as it
  was before the run.
\<close>

theorem runPreloadJob_no_pages_fails:
  assumes job: "find (\<lambda>j. job_id j = jobId) jobs = Some job"
    and base: "body_baseUrl body = Some baseUrl"
    and disc: "jobDiscovery E body baseUrl = Inr discovery"
    and targets: "jobTargets body discovery = targets"
    and none: "\<forall>i < length targets.
        isl (fetchDocumentationMarkdown E i baseUrl
               (if targets ! i = [] then None else Some (targets ! i)) (jobDocsetType E body))"
    and run: "runPreloadJob E jobs fs jobId body = (jobs', fs')"
  shows "\<exists>failed.
      jobs' = map (\<lambda>j. if job_id j = jobId then failed else j) jobs \<and>
      find (\<lambda>j. job_id j = jobId) jobs' = Some failed \<and>
      job_status (fst (runJobTry E body baseUrl job fs)) = Running \<and>
      job_status failed = Failed \<and>
      job_result failed = job_result job \<and>
      job_error failed = Some (noPagesMessage E jobId targets) \<and>
      noPagesMessage E jobId targets \<noteq> [] \<and>
      (if writable fs (jobDir jobId) \<and> writable fs (jobFile jobId)
       then readJobSnapshot fs' jobId = Some (snapshotOf failed)
       else fs' = fs)"
proof -
  from job have jid: "job_id job = jobId"
    by (auto simp: find_Some_iff)
  from runJobTry_no_pages [OF disc targets none, of job fs] obtain job3 fs3 where
    tried: "runJobTry E body baseUrl job fs = (job3, fs3, Some (noPagesMessage E jobId targets))"
    and j3: "job_id job3 = jobId" "job_status job3 = Running" "job_result job3 = job_result job"
    and w3: "writable fs3 = writable fs"
    and r3: "\<not> (writable fs (jobDir jobId) \<and> writable fs (jobFile jobId)) \<longrightarrow> fs3 = fs"
    unfolding jid by blast
  define failed where "failed = job3\<lparr>job_status := Failed,
      job_error := Some (noPagesMessage E jobId targets), job_updatedAt := clock E\<rparr>"
  have fid: "job_id failed = jobId" "snap_id (snapshotOf failed) = jobId"
    by (simp_all add: failed_def j3 snapshotOf_def)
  have "runJob E body baseUrl job fs = (failed, safeWriteJobSnapshot fs3 (snapshotOf failed))"
    by (simp add: runJob_def tried failed_def Let_def)
  with run have jobs': "jobs' = map (\<lambda>j. if job_id j = jobId then failed else j) jobs"
    and fs': "fs' = safeWriteJobSnapshot fs3 (snapshotOf failed)"
    by (simp_all add: runPreloadJob_def job base)
  have stored: "readJobSnapshot fs' jobId = Some (snapshotOf failed)"
    if "writable fs (jobDir jobId) \<and> writable fs (jobFile jobId)"
    unfolding fs' using safeWriteJobSnapshot_read [of fs3 "snapshotOf failed"] that w3 fid
    by simp
  have refused: "fs' = fs" if "\<not> (writable fs (jobDir jobId) \<and> writable fs (jobFile jobId))"
    unfolding fs' using safeWriteJobSnapshot_refused [of fs3 "snapshotOf failed"] that w3 r3 fid
    by simp
  show ?thesis
  proof (intro exI [of _ failed] conjI)
    show "jobs' = map (\<lambda>j. if job_id j = jobId then failed else j) jobs"
      by (rule jobs')
    show "find (\<lambda>j. job_id j = jobId) jobs' = Some failed"
      unfolding jobs' using job fid(1) by (rule find_replaced)
    show "job_status (fst (runJobTry E body baseUrl job fs)) = Running"
      by (simp add: tried j3)
    show "job_status failed = Failed" "job_result failed = job_result job"
      "job_error failed = Some (noPagesMessage E jobId targets)"
      by (simp_all add: failed_def j3)
    show "noPagesMessage E jobId targets \<noteq> []"
      by (rule noPagesMessage_nonempty)
    show "if writable fs (jobDir jobId) \<and> writable fs (jobFile jobId)
       then readJobSnapshot fs' jobId = Some (snapshotOf failed)
       else fs' = fs"
      using stored refused by simp
  qed
qed

theorem runPreloadJob_no_pages_fails_witness:
  "find (\<lambda>j. job_id j = ''job-1'') [exampleJob ''job-1'' Queued 0] = Some (exampleJob ''job-1'' Queued 0) \<and>
   map job_status (fst (runExample (storeOf []))) = [Failed] \<and>
   map_option snap_status (readJobSnapshot (snd (runExample (storeOf []))) ''job-1'') = Some Failed"
proof -
  have job: "find (\<lambda>j. job_id j = ''job-1'') [exampleJob ''job-1'' Queued 0] = Some (exampleJob ''job-1'' Queued 0)"
    by (simp add: exampleJob_def)
  have base: "body_baseUrl exampleBody = Some ''https://docs.example.com''"
    by (simp add: exampleBody_def)
  have "\<not> isl (jobDiscovery unreachableEnv exampleBody ''https://docs.example.com'')"
    by code_simp
  then obtain discovery where
    disc: "jobDiscovery unreachableEnv exampleBody ''https://docs.example.com'' = Inr discovery"
    by (cases "jobDiscovery unreachableEnv exampleBody ''https://docs.example.com''") simp_all
  define targets where "targets = jobTargets exampleBody discovery"
  have none: "\<forall>i < length targets.
      isl (fetchDocumentationMarkdown unreachableEnv i ''https://docs.example.com''
             (if targets ! i = [] then None else Some (targets ! i)) (jobDocsetType unreachableEnv exampleBody))"
    by (simp add: unreachableEnv_def)
  have run: "runPreloadJob unreachableEnv [exampleJob ''job-1'' Queued 0] (storeOf []) ''job-1'' exampleBody
      = (fst (runExample (storeOf [])), snd (runExample (storeOf [])))"
    by (simp add: runExample_def)
  from runPreloadJob_no_pages_fails [OF job base disc targets_def [symmetric] none run]
  obtain failed where
    "fst (runExample (storeOf [])) = map (\<lambda>j. if job_id j = ''job-1'' then failed else j) [exampleJob ''job-1'' Queued 0]"
    "job_status failed = Failed"
    "if writable (storeOf []) (jobDir ''job-1'') \<and> writable (storeOf []) (jobFile ''job-1'')
     then readJobSnapshot (snd (runExample (storeOf []))) ''job-1'' = Some (snapshotOf failed)
     else snd (runExample (storeOf [])) = storeOf []"
    by blast
  with job show ?thesis
    by (simp add: exampleJob_def storeOf_def snapshotOf_def)
qed

text \<open>
  C5 (as stated) fails in its last part. The store holds the snapshot written when the
  job was queued and refuses every write since. The site cannot be reached, so no page is
  fetched: the job of the table becomes \<open>failed\<close>, with the message of the exception, while
  the stored snapshot still says \<open>queued\<close>.
\<close>

theorem runPreloadJob_failed_status_not_persisted:
  "map job_status (fst (runExample refusingStore)) = [Failed] \<and>
   map job_error (fst (runExample refusingStore))
     = [Some ''No pages could be preloaded. Check baseUrl and crawl settings.''] \<and>
   map_option snap_status (readJobSnapshot (snd (runExample refusingStore)) ''job-1'') = Some Queued"
  by code_simp
end
